theory Spec2Isabelle
  imports Complex_Main "HOL-Library.Log_Nat"
begin

section \<open>JSON values\<close>

text \<open>
  \<open>applyJsonDiff\<close> and \<open>moveKeyframes\<close> walk the project by property name, whatever the
  entity, so for them the project is the tree of JavaScript values it is built from.  An
  object is the list of its own properties in insertion order (keys are distinct); a hole
  of an array is written \<open>JNull\<close>.
\<close>

datatype json =
  JNull
  | JBool bool
  | JNum real
  | JStr string
  | JArr "json list"
  | JObj "(string \<times> json) list"

datatype step = Field string | Index nat

type_synonym path = "step list"

definition truthy :: "json \<Rightarrow> bool" where
  "truthy v = (case v of JNull \<Rightarrow> False | JBool b \<Rightarrow> b | JNum x \<Rightarrow> x \<noteq> 0
                | JStr s \<Rightarrow> s \<noteq> [] | JArr xs \<Rightarrow> True | JObj fs \<Rightarrow> True)"

text \<open>\<open>===\<close>: by value on primitives; two objects of a parsed tree are never the same.\<close>

definition strict_eq :: "json \<Rightarrow> json \<Rightarrow> bool" where
  "strict_eq a b =
     (case (a, b) of
        (JNull, JNull) \<Rightarrow> True
      | (JBool x, JBool y) \<Rightarrow> x = y
      | (JNum x, JNum y) \<Rightarrow> x = y
      | (JStr x, JStr y) \<Rightarrow> x = y
      | _ \<Rightarrow> False)"

text \<open>A canonical array index: decimal digits without a leading zero.\<close>

fun digits_value :: "string \<Rightarrow> nat \<Rightarrow> nat option" where
  "digits_value [] acc = Some acc"
| "digits_value (c # cs) acc =
     (let n = (of_char c :: nat)
      in if 48 \<le> n \<and> n \<le> 57 then digits_value cs (10 * acc + (n - 48)) else None)"

definition array_index :: "string \<Rightarrow> nat option" where
  "array_index k =
     (if k = [] then None
      else if hd k = CHR ''0'' \<and> length k > 1 then None
      else digits_value k 0)"

text \<open>
  The own property \<open>k\<close> of a value, with the step that leads to it when the property is a
  slot of the tree.  \<open>None\<close> is \<open>hasOwnProperty(k) = false\<close>.  The caller has excluded
  \<open>null\<close>, on which the test itself raises.
\<close>

definition own_property :: "json \<Rightarrow> string \<Rightarrow> (json \<times> step) option" where
  "own_property v k =
     (case v of
        JObj fs \<Rightarrow> map_option (\<lambda>x. (x, Field k)) (map_of fs k)
      | JArr xs \<Rightarrow>
          if k = ''length'' then Some (JNum (real (length xs)), Field k)
          else (case array_index k of
                  Some i \<Rightarrow> if i < length xs then Some (xs ! i, Index i) else None
                | None \<Rightarrow> None)
      | JStr s \<Rightarrow>
          if k = ''length'' then Some (JNum (real (length s)), Field k)
          else (case array_index k of
                  Some i \<Rightarrow> if i < length s then Some (JStr [s ! i], Field k) else None
                | None \<Rightarrow> None)
      | _ \<Rightarrow> None)"

text \<open>Writing into the tree: a property of an object, a slot of an array.\<close>

fun set_field :: "string \<Rightarrow> json \<Rightarrow> (string \<times> json) list \<Rightarrow> (string \<times> json) list" where
  "set_field k v [] = [(k, v)]"
| "set_field k v ((k', v') # fs) =
     (if k' = k then (k, v) # fs else (k', v') # set_field k v fs)"

definition delete_field :: "string \<Rightarrow> (string \<times> json) list \<Rightarrow> (string \<times> json) list" where
  "delete_field k fs = filter (\<lambda>(k', v). k' \<noteq> k) fs"

definition set_slot :: "nat \<Rightarrow> json \<Rightarrow> json list \<Rightarrow> json list" where
  "set_slot i v xs =
     (if i < length xs then xs[i := v] else xs @ replicate (i - length xs) JNull @ [v])"

definition splice1 :: "nat \<Rightarrow> json list \<Rightarrow> json list" where
  "splice1 i xs = take i xs @ drop (Suc i) xs"

text \<open>The value at the end of a path, and the tree with that value changed.\<close>

fun at_path :: "json \<Rightarrow> path \<Rightarrow> json option" where
  "at_path v [] = Some v"
| "at_path (JObj fs) (Field k # p) =
     (case map_of fs k of None \<Rightarrow> None | Some x \<Rightarrow> at_path x p)"
| "at_path (JArr xs) (Index i # p) = (if i < length xs then at_path (xs ! i) p else None)"
| "at_path v (s # p) = None"

fun modify :: "path \<Rightarrow> (json \<Rightarrow> json) \<Rightarrow> json \<Rightarrow> json" where
  "modify [] f v = f v"
| "modify (Field k # p) f (JObj fs) =
     JObj (map (\<lambda>(k', x). if k' = k then (k', modify p f x) else (k', x)) fs)"
| "modify (Index i # p) f (JArr xs) =
     (if i < length xs then JArr (xs[i := modify p f (xs ! i)]) else JArr xs)"
| "modify (s # p) f v = v"

text \<open>A computation that returns a value or raises a \<open>TypeError\<close>.\<close>

datatype 'a result = Returned 'a | TypeError

section \<open>Double-precision arithmetic\<close>

text \<open>
  Every JavaScript number is an IEEE 754 double.  \<open>fl x\<close> is the double nearest to the real
  number \<open>x\<close>: 53 significant bits, a tie going to the even significand.  The exponent range
  is left unbounded, so overflow to infinity and the subnormal numbers are not modelled.
  \<open>binary_exponent x\<close> is the exponent of the leading bit of \<open>x\<close>, that is
  \<open>\<lfloor>log 2 \<bar>x\<bar>\<rfloor>\<close>, computed from the bit length of an integer.
\<close>

definition round_even :: "real \<Rightarrow> int" where
  "round_even y =
     (let n = \<lfloor>y\<rfloor>; r = y - of_int n
      in if r < 1 / 2 then n else if 1 / 2 < r then n + 1 else if even n then n else n + 1)"

definition binary_exponent :: "real \<Rightarrow> int" where
  "binary_exponent x =
     (if 1 \<le> \<bar>x\<bar> then int (floorlog 2 (nat \<lfloor>\<bar>x\<bar>\<rfloor>)) - 1
      else - int (floorlog 2 (nat (\<lceil>1 / \<bar>x\<bar>\<rceil> - 1))))"

definition fl :: "real \<Rightarrow> real" where
  "fl x = (if x = 0 then 0
           else of_int (round_even (x / 2 powi (binary_exponent x - 52)))
                  * 2 powi (binary_exponent x - 52))"

text \<open>
  The four operations on doubles: the exact result, rounded.  A function stated in double
  precision reads its numbers as doubles (\<open>fl\<close> of the field or argument) and uses these
  operations.
\<close>

definition fadd :: "real \<Rightarrow> real \<Rightarrow> real" where
  "fadd x y = fl (x + y)"

definition fsub :: "real \<Rightarrow> real \<Rightarrow> real" where
  "fsub x y = fl (x - y)"

definition fmul :: "real \<Rightarrow> real \<Rightarrow> real" where
  "fmul x y = fl (x * y)"

definition fdiv :: "real \<Rightarrow> real \<Rightarrow> real" where
  "fdiv x y = fl (x / y)"

section \<open>Numbers and time math\<close>

text \<open>
  The timeline engine is JavaScript: every number is an IEEE double.  The embedding takes
  numbers as reals, so \<open>NaN\<close> and the infinities are outside the model.  Arithmetic is
  exact, except in the functions stated in double precision (the length of a resampled
  waveform, the overlap search, the keyframe directive), which use the operations of the
  section above.  Where
  the source guards against a missing or non-numeric value (\<open>toNumber(value, fallback)\<close>)
  the value is an \<open>option\<close> and \<open>None\<close> stands for \<open>undefined\<close>/\<open>NaN\<close>.
\<close>

definition toNumber :: "real option \<Rightarrow> real \<Rightarrow> real" where
  "toNumber v fallback = (case v of None \<Rightarrow> fallback | Some x \<Rightarrow> x)"

text \<open>\<open>Math.round\<close> rounds half-way cases towards plus infinity.\<close>

definition Math_round :: "real \<Rightarrow> int" where
  "Math_round x = \<lfloor>x + 1 / 2\<rfloor>"

record fps =
  fps_num :: real
  fps_den :: real

text \<open>
  Modelled from the spec: \<open>snapToFPSGridTime\<close> is a global helper of the timeline page
  whose file is not part of the sources at hand.  The specification gives it as
  \<open>snapToFPSGridTime(t) = round(t * num / den) * den / num\<close>, rounding to the nearest
  whole frame.
\<close>

definition snapToFPSGridTime :: "fps \<Rightarrow> real \<Rightarrow> real" where
  "snapToFPSGridTime f t =
     of_int (Math_round (t * fps_num f / fps_den f)) * fps_den f / fps_num f"

text \<open>
  Modelled from the spec: \<open>pixelToTime\<close> is the second absent helper,
  \<open>pixelToTime(px) = px / pixelsPerSecond\<close>.
\<close>

definition pixelToTime :: "real \<Rightarrow> real \<Rightarrow> real" where
  "pixelToTime pixelsPerSecond px = px / pixelsPerSecond"

text \<open>
  Modelled from the spec: the same two helpers as the browser computes them, for the
  handlers whose floors and comparisons read the result.  The formula
  \<open>round(t * num / den) * den / num\<close> is evaluated from left to right, each operation
  rounded to a double; \<open>Math.round\<close> itself is exact.
\<close>

definition snapToFPSGridTime_double :: "fps \<Rightarrow> real \<Rightarrow> real" where
  "snapToFPSGridTime_double f t =
     fdiv (fmul (of_int (Math_round (fdiv (fmul (fl t) (fl (fps_num f))) (fl (fps_den f)))))
                (fl (fps_den f)))
          (fl (fps_num f))"

definition pixelToTime_double :: "real \<Rightarrow> real \<Rightarrow> real" where
  "pixelToTime_double pixelsPerSecond px = fdiv (fl px) (fl pixelsPerSecond)"

section \<open>Data model of the timeline controller\<close>

text \<open>
  A transition carries the fields every timeline item has; a clip extends them.  Field
  names follow the JavaScript objects (\<open>id'\<close> and \<open>end'\<close> are primed because
  \<open>id\<close> is a HOL constant and \<open>end\<close> a keyword).  A missing \<open>effects\<close> array
  and an empty one behave alike in every function modelled here, so the field is a list.
\<close>

record effect =
  effect_id :: string
  effect_selected :: bool

record timed =
  id' :: string
  layer :: int
  position :: real
  start :: real
  end' :: real
  selected :: bool

type_synonym transition = timed

record reader =
  reader_duration :: "real option"
  video_length :: "real option"
  reader_fps_num :: "real option"
  reader_fps_den :: "real option"
  reader_has_single_image :: bool
  reader_media_type :: "string option"

text \<open>The container \<open>clip.ui.keyframe_preview\<close> of the trim/retime preview.\<close>

record preview =
  active :: bool
  mode :: string
  originalStart :: "real option"
  originalEnd :: "real option"
  stored_originalDuration :: "real option"
  displayStart :: "real option"
  displayEnd :: "real option"
  stored_displayDuration :: "real option"
  projectedStart :: "real option"
  projectedEnd :: "real option"
  preview_pixelsPerSecond :: "real option"

text \<open>
  A waveform sample is \<open>Some v\<close> for a finite number and \<open>None\<close> for anything
  \<open>isFinite\<close> rejects.  \<open>time_points\<close> is \<open>clip.time.Points\<close> (empty when the
  clip has no \<open>time\<close> track), each entry the frame \<open>co.X\<close> of a point, \<open>None\<close>
  when the point has no numeric \<open>co.X\<close>.
\<close>

record clip = timed +
  clip_effects :: "effect list"
  clip_duration :: "real option"
  has_single_image :: bool
  media_type :: "string option"
  reader :: "reader option"
  time_points :: "real option list"
  audio_data :: "real option list option"
  keyframe_preview :: "preview option"

record marker =
  marker_position :: real

record project =
  fps :: fps
  duration :: real
  playhead_position :: real
  clips :: "clip list"
  effects :: "transition list"
  markers :: "marker list"

text \<open>The size proposed for a missing transition.\<close>

record transition_size =
  ts_position :: real
  ts_layer :: int
  ts_start :: real
  ts_end :: real

text \<open>
  The object a keyframe icon belongs to, as the keyframe directive reads it: the numeric
  properties it consults (\<open>None\<close> when the object has no such property) and all its
  other own properties, among them the keyframe tracks.
\<close>

record keyframed =
  object_start :: "real option"
  object_end :: "real option"
  object_duration :: "real option"
  object_position :: "real option"
  object_properties :: "(string \<times> json) list"

text \<open>What \<open>JSON.stringify\<close> was given.\<close>

datatype payload = Clip_json clip | Transition_json transition | Object_json keyframed

text \<open>
  Calls on the host bridge object \<open>timeline\<close> are recorded, in the order they are
  made, in the field \<open>host\<close> of the scope.  The two \<open>scrolling_tracks\<close> fields are what the page reports for the
  scroll position and the left offset of the track area.
\<close>

datatype host_call =
  Qt_log string string
  | AddSelection string string bool
  | RemoveSelection string string
  | RazorSliceAtCursor string string real
  | Update_clip_data payload bool bool bool "string option"
  | Update_transition_data payload bool bool "string option"
  | StartKeyframeDrag string string string
  | FinalizeKeyframeDrag string string
  | PlayheadMoved int
  | RetimeClip string real real
  | ResizeTimeline real
  | Add_missing_transition transition_size

datatype item_ref = Clip_ref nat | Transition_ref nat | Clip_effect_ref nat nat

record scope =
  project :: project
  pixelsPerSecond :: real
  Qt :: bool
  enable_razor :: bool
  enable_timing :: bool
  dragging :: bool
  lastSelectedItem :: "item_ref option"
  snapline :: bool
  snapline_position :: real
  scrolling_tracks_scrollLeft :: real
  scrolling_tracks_offset_left :: real
  host :: "host_call list"

definition call :: "host_call \<Rightarrow> scope \<Rightarrow> scope" where
  "call c sc = sc\<lparr>host := host sc @ [c]\<rparr>"

text \<open>The demo project the controller starts with (24 fps, 300 s, 100 px per 16 s).\<close>

definition demo_project :: project where
  "demo_project = \<lparr>fps = \<lparr>fps_num = 24, fps_den = 1\<rparr>, duration = 300,
     playhead_position = 0, clips = [], effects = [], markers = []\<rparr>"

definition demo_scope :: scope where
  "demo_scope = \<lparr>project = demo_project, pixelsPerSecond = 100 / 16, Qt = False,
     enable_razor = False, enable_timing = False, dragging = False,
     lastSelectedItem = None, snapline = False, snapline_position = 0,
     scrolling_tracks_scrollLeft = 0, scrolling_tracks_offset_left = 0, host = []\<rparr>"

section \<open>Playhead\<close>

text \<open>
  \<open>movePlayhead\<close> stores the snapped time; the ruler readout and the two DOM writes
  that follow do not touch the project.
\<close>

definition movePlayhead :: "scope \<Rightarrow> real \<Rightarrow> scope" where
  "movePlayhead sc position_seconds =
     sc\<lparr>project := (project sc)\<lparr>playhead_position :=
       snapToFPSGridTime (fps (project sc)) position_seconds\<rparr>\<rparr>"

section \<open>Audio waveform resampling on retime\<close>

text \<open>
  \<open>resampleWaveform\<close> of the clip directive.  \<open>element data i\<close> is the JavaScript read
  \<open>data[i]\<close>: out of range it yields \<open>undefined\<close>, which \<open>isFinite\<close> rejects like any
  other non-finite sample.  The durations are finite numbers; the whole argument is \<open>None\<close>
  when \<open>data\<close> is not an array.  The new length is \<open>Math.round\<close> of a product of
  doubles and is computed as such; the samples are real numbers and the interpolation
  between them is exact.
\<close>

definition element :: "real option list \<Rightarrow> int \<Rightarrow> real option" where
  "element data i = (if 0 \<le> i \<and> i < int (length data) then data ! nat i else None)"

definition resample_at :: "real option list \<Rightarrow> int \<Rightarrow> int \<Rightarrow> real" where
  "resample_at data newLength i =
     (let maxSourceIndex = int (length data) - 1;
          t = (if newLength = 1 then 0 else of_int i / of_int (newLength - 1));
          sourcePos = t * of_int maxSourceIndex;
          idx0 = \<lfloor>sourcePos\<rfloor>;
          idx1 = min maxSourceIndex (idx0 + 1);
          frac = sourcePos - of_int idx0;
          value0 = (case element data idx0 of Some v \<Rightarrow> v | None \<Rightarrow> 0);
          value1 = (case element data idx1 of Some v \<Rightarrow> v | None \<Rightarrow> value0)
      in value0 + (value1 - value0) * frac)"

definition resampleWaveform ::
  "real option list option \<Rightarrow> real \<Rightarrow> real \<Rightarrow> real option list option" where
  "resampleWaveform data originalDuration newDuration =
     (case data of
        None \<Rightarrow> None
      | Some d \<Rightarrow>
          if d = [] then None
          else if originalDuration \<le> 0 \<or> newDuration \<le> 0 then None
          else if length d = 1 then Some [d ! 0]
          else
            let newLength =
                  max 1 (Math_round (fmul (of_nat (length d))
                                       (fdiv (fl newDuration) (fl originalDuration))))
            in if newLength = int (length d) then Some d
               else Some (map (\<lambda>i. Some (resample_at d newLength (int i)))
                            [0..<nat newLength]))"

text \<open>
  The result the interpolation is compared with, on a plain list of finite samples:
  output index \<open>i\<close> of \<open>m\<close> reads the source at position \<open>i * (n - 1) / (m - 1)\<close> and
  blends the two neighbouring samples by the fractional part.  \<open>resampled_length\<close> is the
  length of the result for \<open>n\<close> samples: the quotient of the durations and its product
  with \<open>n\<close> are each rounded to a double before \<open>Math.round\<close>.
\<close>

definition source_pos :: "nat \<Rightarrow> nat \<Rightarrow> nat \<Rightarrow> real" where
  "source_pos n m i = (if m = 1 then 0 else real i * real (n - 1) / real (m - 1))"

definition interpolated :: "real list \<Rightarrow> nat \<Rightarrow> nat \<Rightarrow> real" where
  "interpolated vs m i =
     (let p = source_pos (length vs) m i;
          i0 = nat \<lfloor>p\<rfloor>;
          i1 = min (length vs - 1) (i0 + 1)
      in vs ! i0 + (vs ! i1 - vs ! i0) * frac p)"

definition resampled_length :: "nat \<Rightarrow> real \<Rightarrow> real \<Rightarrow> nat" where
  "resampled_length n originalDuration newDuration =
     (if n = 1 then 1
      else nat (max 1 (Math_round (fmul (real n)
                                     (fdiv (fl newDuration) (fl originalDuration))))))"

section \<open>Clip directive: limits of a resize\<close>

text \<open>
  \<open>toLowerCase\<close> on the ASCII letters, which is all the comparison with \<open>"image"\<close>
  can depend on.
\<close>

definition lower_char :: "char \<Rightarrow> char" where
  "lower_char c =
     (let n = (of_char c :: nat) in if 65 \<le> n \<and> n \<le> 90 then char_of (n + 32) else c)"

definition toLowerCase :: "string \<Rightarrow> string" where
  "toLowerCase s = map lower_char s"

definition or_empty :: "string option \<Rightarrow> string" where
  "or_empty v = (case v of None \<Rightarrow> [] | Some s \<Rightarrow> s)"

definition isSingleImageClip :: "clip \<Rightarrow> bool" where
  "isSingleImageClip c =
     (if has_single_image c then True
      else if toLowerCase (or_empty (media_type c)) = ''image'' then True
      else (case reader c of
              None \<Rightarrow> False
            | Some r \<Rightarrow>
                if reader_has_single_image r then True
                else toLowerCase (or_empty (reader_media_type r)) = ''image''))"

definition getTimePoints :: "clip \<Rightarrow> real option list" where
  "getTimePoints c = time_points c"

definition hasTimeKeyframes :: "clip \<Rightarrow> bool" where
  "hasTimeKeyframes c = (2 \<le> length (getTimePoints c))"


text \<open>
  The scan for the smallest and the largest frame of the \<open>time\<close> curve starts from
  plus and minus infinity; \<open>None\<close> is that starting value.
\<close>

fun frame_span :: "real option list \<Rightarrow> real option \<Rightarrow> real option \<Rightarrow> real option \<times> real option" where
  "frame_span [] minFrame maxFrame = (minFrame, maxFrame)"
| "frame_span (None # points) minFrame maxFrame = frame_span points minFrame maxFrame"
| "frame_span (Some frame # points) minFrame maxFrame =
     frame_span points
       (case minFrame of None \<Rightarrow> Some frame
        | Some m \<Rightarrow> if frame < m then Some frame else Some m)
       (case maxFrame of None \<Rightarrow> Some frame
        | Some m \<Rightarrow> if frame > m then Some frame else Some m)"

definition getRetimedDurationSeconds :: "project \<Rightarrow> clip \<Rightarrow> real option" where
  "getRetimedDurationSeconds p c =
     (if \<not> hasTimeKeyframes c then None
      else if getTimePoints c = [] then None
      else if fps_den (fps p) = 0 then None
      else
        let fpsValue = fps_num (fps p) / fps_den (fps p) in
        if fpsValue \<le> 0 then None
        else (case frame_span (getTimePoints c) None None of
                (Some minFrame, Some maxFrame) \<Rightarrow>
                  if maxFrame \<le> minFrame then None
                  else Some ((maxFrame - minFrame) / fpsValue)
              | _ \<Rightarrow> None))"

definition positive :: "real option \<Rightarrow> bool" where
  "positive v = (case v of None \<Rightarrow> False | Some x \<Rightarrow> 0 < x)"

definition getReaderDurationSeconds :: "clip \<Rightarrow> real" where
  "getReaderDurationSeconds c =
     (let r = reader c;
          duration = (case r of None \<Rightarrow> None | Some r \<Rightarrow> reader_duration r);
          videoLength = (case r of None \<Rightarrow> None | Some r \<Rightarrow> video_length r);
          fpsNum = (case r of None \<Rightarrow> None | Some r \<Rightarrow> reader_fps_num r);
          fpsDen = (case r of None \<Rightarrow> None | Some r \<Rightarrow> reader_fps_den r)
      in if positive duration then the duration
         else if videoLength \<noteq> None \<and> fpsNum \<noteq> None \<and> fpsDen \<noteq> None \<and> fpsDen \<noteq> Some 0
                 \<and> 0 < the fpsNum / the fpsDen
           then the videoLength / (the fpsNum / the fpsDen)
         else if positive (clip_duration c) then the (clip_duration c)
         else max (end' c - start c) 0)"

definition isResizeConstrained :: "scope \<Rightarrow> clip \<Rightarrow> bool" where
  "isResizeConstrained sc c = (\<not> enable_timing sc \<and> \<not> isSingleImageClip c)"

definition getMaxDurationSeconds :: "scope \<Rightarrow> clip \<Rightarrow> real option" where
  "getMaxDurationSeconds sc c =
     (if enable_timing sc then None
      else (case getRetimedDurationSeconds (project sc) c of
              Some retimed \<Rightarrow> Some retimed
            | None \<Rightarrow>
                if \<not> isResizeConstrained sc c then None
                else Some (getReaderDurationSeconds c)))"

definition getMaxClipEndSeconds :: "scope \<Rightarrow> clip \<Rightarrow> real option" where
  "getMaxClipEndSeconds sc c =
     (case getMaxDurationSeconds sc c of
        None \<Rightarrow> None
      | Some maxDuration \<Rightarrow> Some (start c + maxDuration))"

section \<open>Timeline autogrow\<close>

fun furthest_right_edge :: "clip list \<Rightarrow> real \<Rightarrow> real" where
  "furthest_right_edge [] acc = acc"
| "furthest_right_edge (c # cs) acc =
     (let right_edge = position c + (end' c - start c)
      in furthest_right_edge cs (if right_edge > acc then right_edge else acc))"

definition resizeTimeline :: "scope \<Rightarrow> scope" where
  "resizeTimeline sc =
     (let edge = furthest_right_edge (clips (project sc)) 0 in
      if edge > duration (project sc) \<and> Qt sc then
        let new_timeline_length = max 300 (edge + 10) in
        (call (ResizeTimeline new_timeline_length) sc)
          \<lparr>project := (project sc)\<lparr>duration := new_timeline_length\<rparr>\<rparr>
      else sc)"

definition hideSnapline :: "scope \<Rightarrow> scope" where
  "hideSnapline sc = (if snapline sc then sc\<lparr>snapline := False\<rparr> else sc)"

section \<open>Clip directive: releasing a resize handle\<close>

text \<open>
  The directive of one clip: \<open>scope.clip\<close> is the entry \<open>clip_index\<close> of
  \<open>project.clips\<close>, and the variables the handlers share are the other fields.
\<close>

datatype drag_loc = Left | Right

record tl_clip =
  clip_index :: nat
  dragLoc :: "drag_loc option"
  resize_disabled :: bool
  timing_original_start :: real
  timing_original_end :: real
  timing_original_audio :: "real option list option"
  timing_original_duration :: real

definition the_clip :: "scope \<Rightarrow> tl_clip \<Rightarrow> clip" where
  "the_clip sc d = clips (project sc) ! clip_index d"

definition set_clip :: "(clip \<Rightarrow> clip) \<Rightarrow> tl_clip \<Rightarrow> scope \<Rightarrow> scope" where
  "set_clip f d sc =
     sc\<lparr>project := (project sc)\<lparr>clips :=
       (clips (project sc))[clip_index d := f (the_clip sc d)]\<rparr>\<rparr>"

definition stopKeyframePreview :: "tl_clip \<Rightarrow> scope \<Rightarrow> scope" where
  "stopKeyframePreview d sc =
     set_clip (\<lambda>c. case keyframe_preview c of
                      None \<Rightarrow> c
                    | Some container \<Rightarrow>
                        if active container
                        then c\<lparr>keyframe_preview := Some (container\<lparr>active := False\<rparr>)\<rparr>
                        else c) d sc"

text \<open>
  The edges the release computes, before they are stored: \<open>(new_position, new_left,
  new_right)\<close>.  \<open>delta_time\<close> is the distance, in seconds, between the dragged edge before
  the resize and the pixel the bounding-box engine reports.
\<close>

definition resized_edges :: "scope \<Rightarrow> clip \<Rightarrow> drag_loc option \<Rightarrow> real \<Rightarrow> real \<times> real \<times> real" where
  "resized_edges sc c loc delta_time =
     (let new_position = position c;
          new_left = start c;
          new_right = end' c;
          maxClipEndSeconds = getMaxClipEndSeconds sc c;
          singleImageClip = isSingleImageClip c;
          allowLeftOverflow = (enable_timing sc \<or> singleImageClip)
      in if loc = Some Left then
           let targetStart0 = new_left - delta_time;
               overflow = (if targetStart0 < 0 then - targetStart0 else 0);
               targetStart1 = (if targetStart0 < 0 then 0 else targetStart0);
               targetStart = (if targetStart1 \<ge> new_right then new_right else targetStart1);
               positionShift = (if overflow > 0 \<and> \<not> allowLeftOverflow then start c else delta_time);
               new_position' = (if targetStart1 \<ge> new_right then new_position
                                else new_position - positionShift);
               new_right' = (if overflow > 0 \<and> allowLeftOverflow then new_right + overflow
                             else new_right)
           in (new_position', targetStart, new_right')
         else
           let new_right1 = new_right - delta_time;
               new_right' =
                 (case maxClipEndSeconds of
                    Some m \<Rightarrow> if new_right1 > m then m
                              else if new_right1 < new_left then new_left else new_right1
                  | None \<Rightarrow> if new_right1 < new_left then new_left else new_right1)
           in (new_position, new_left, new_right'))"

text \<open>
  The \<open>stop\<close> handler of the resizable clip.  \<open>new_position_px\<close> is
  \<open>results.position.left\<close>, the pixel returned by \<open>moveBoundingBox\<close>; that function and
  the waveform painter \<open>drawAudio\<close> belong to a file that is not among the sources, and
  they are taken to make no call on the host.
\<close>

definition resize_stop :: "scope \<Rightarrow> tl_clip \<Rightarrow> real \<Rightarrow> scope \<times> tl_clip" where
  "resize_stop sc0 d new_position_px =
     (let sc1 = stopKeyframePreview d (sc0\<lparr>dragging := False\<rparr>);
          c = the_clip sc1 d;
          original_left_edge = position c * pixelsPerSecond sc1;
          original_right_edge = original_left_edge + (end' c - start c) * pixelsPerSecond sc1
      in if resize_disabled d then (sc1, d\<lparr>resize_disabled := False\<rparr>)
         else
           let delta_x = (case dragLoc d of
                            Some Left \<Rightarrow> original_left_edge - new_position_px
                          | Some Right \<Rightarrow> original_right_edge - new_position_px
                          | None \<Rightarrow> 0);
               delta_time = delta_x / pixelsPerSecond sc1;
               (new_position, new_left, new_right) = resized_edges sc1 c (dragLoc d) delta_time;
               sc2 = hideSnapline sc1;
               f = fps (project sc2)
           in if enable_timing sc2 then
                let duration_sec = snapToFPSGridTime f new_right - snapToFPSGridTime f new_left;
                    position_sec = snapToFPSGridTime f new_position;
                    sc3 = resizeTimeline
                            (set_clip (\<lambda>c. c\<lparr>start := timing_original_start d,
                                 end' := snapToFPSGridTime f (timing_original_start d + duration_sec),
                                 position := position_sec\<rparr>) d sc2);
                    c3 = the_clip sc3 d;
                    sc4 = (if Qt sc3 then call (RetimeClip (id' c3) (end' c3) (position c3)) sc3
                           else sc3);
                    sc5 = (if timing_original_audio d \<noteq> None \<and> timing_original_duration d > 0 then
                             let newDuration = max (end' c3 - start c3) 0 in
                             (case resampleWaveform (timing_original_audio d)
                                     (timing_original_duration d) newDuration of
                                Some resampled \<Rightarrow>
                                  set_clip (\<lambda>c. c\<lparr>audio_data := Some resampled\<rparr>) d sc4
                              | None \<Rightarrow> sc4)
                           else sc4)
                in (sc5, d\<lparr>timing_original_audio := None, timing_original_duration := 0,
                          dragLoc := None\<rparr>)
              else
                let sc3 = resizeTimeline
                            (set_clip (\<lambda>c. c\<lparr>
                                 end' := (if end' c \<noteq> new_right
                                          then snapToFPSGridTime f new_right else end' c),
                                 start := snapToFPSGridTime f new_left,
                                 position := snapToFPSGridTime f new_position\<rparr>) d sc2);
                    sc4 = (if Qt sc3
                           then call (Update_clip_data (Clip_json (the_clip sc3 d)) True True False None) sc3
                           else sc3)
                in (sc4, d\<lparr>dragLoc := None\<rparr>))"

text \<open>A clip with nothing but its identity and extent, for the scenarios.\<close>

definition plain_clip :: "string \<Rightarrow> int \<Rightarrow> real \<Rightarrow> real \<Rightarrow> real \<Rightarrow> clip" where
  "plain_clip i l p s e =
     \<lparr>id' = i, layer = l, position = p, start = s, end' = e, selected = False,
      clip_effects = [], clip_duration = None, has_single_image = False, media_type = None,
      reader = None, time_points = [], audio_data = None, keyframe_preview = None\<rparr>"

definition idle_directive :: "nat \<Rightarrow> drag_loc \<Rightarrow> tl_clip" where
  "idle_directive i loc =
     \<lparr>clip_index = i, dragLoc = Some loc, resize_disabled = False,
      timing_original_start = 0, timing_original_end = 0, timing_original_audio = None,
      timing_original_duration = 0\<rparr>"


definition six_second_reader :: "string option \<Rightarrow> reader" where
  "six_second_reader mt =
     \<lparr>reader_duration = Some 6, video_length = None, reader_fps_num = None,
      reader_fps_den = None, reader_has_single_image = False, reader_media_type = mt\<rparr>"


section \<open>Overlap detection and the missing-transition proposal\<close>

text \<open>
  \<open>getMissingTransitions\<close>, in double precision: the edges are sums and differences of
  doubles, and the tests compare them.  The first loop keeps \<open>transition_size\<close> across its
  rounds: a round either leaves it, sets it from the left-edge test, or sets it from the
  right-edge test; a set value of at least half a second ends the loop, a smaller one is
  cleared.
\<close>

fun search_clips ::
  "'a timed_scheme \<Rightarrow> clip list \<Rightarrow> transition_size option \<Rightarrow> transition_size option" where
  "search_clips original_clip [] transition_size = transition_size"
| "search_clips original_clip (clip # rest) transition_size =
     (let original_left = fl (position original_clip);
          original_right = fadd (fl (position original_clip))
                             (fsub (fl (end' original_clip)) (fl (start original_clip)))
      in if layer original_clip \<noteq> layer clip
         then search_clips original_clip rest transition_size
         else
           let clip_left = fl (position clip);
               clip_right = fadd (fl (position clip)) (fsub (fl (end' clip)) (fl (start clip)));
               transition_size' =
                 (if original_left < clip_right \<and> original_left > clip_left then
                    Some \<lparr>ts_position = original_left, ts_layer = layer clip, ts_start = 0,
                           ts_end = fsub clip_right original_left\<rparr>
                  else if original_right > clip_left \<and> original_right < clip_right then
                    Some \<lparr>ts_position = clip_left, ts_layer = layer clip, ts_start = 0,
                           ts_end = fsub original_right clip_left\<rparr>
                  else transition_size)
           in (case transition_size' of
                 None \<Rightarrow> search_clips original_clip rest None
               | Some t \<Rightarrow>
                   if ts_end t \<ge> 1 / 2 then Some t
                   else search_clips original_clip rest None))"

definition TOLERANCE :: real where
  "TOLERANCE = fl (1 / 100)"

fun search_transitions :: "transition_size \<Rightarrow> transition list \<Rightarrow> transition_size option" where
  "search_transitions transition_size [] = Some transition_size"
| "search_transitions transition_size (tran # rest) =
     (if layer tran \<noteq> ts_layer transition_size
      then search_transitions transition_size rest
      else
        let tran_left = fl (position tran);
            tran_right = fadd (fl (position tran)) (fsub (fl (end' tran)) (fl (start tran)));
            new_tran_left = fl (ts_position transition_size);
            new_tran_right = fadd (fl (ts_position transition_size))
                               (fsub (fl (ts_end transition_size))
                                     (fl (ts_start transition_size)))
        in if \<bar>fsub tran_left new_tran_left\<bar> < TOLERANCE
              \<or> \<bar>fsub tran_right new_tran_right\<bar> < TOLERANCE
           then None
           else search_transitions transition_size rest)"

definition getMissingTransitions :: "project \<Rightarrow> 'a timed_scheme \<Rightarrow> transition_size option" where
  "getMissingTransitions p original_clip =
     (case search_clips original_clip (clips p) None of
        None \<Rightarrow> None
      | Some transition_size \<Rightarrow> search_transitions transition_size (effects p))"

text \<open>
  The one place under the sources that reports a proposal is \<open>updateRecentItemJSON\<close>,
  which finalises a move for each id it is given; the position it stores is the input of
  the overlap search and is computed in double precision as well.  This is its body for one
  located item: \<open>item\<close> is what
  \<open>findElement\<close> found, \<open>left\<close> the pixel read from the bounding box or the DOM,
  \<open>nearest_track\<close> the layer number \<open>findTrackAtLocation\<close> found (if any), and \<open>n_ids\<close>
  the number of ids in the call.  (\<open>findElement\<close> and \<open>findTrackAtLocation\<close> are not
  among the sources.)
\<close>

definition updateRecentItem ::
  "scope \<Rightarrow> item_ref \<Rightarrow> real \<Rightarrow> int option \<Rightarrow> nat \<Rightarrow> string option \<Rightarrow> scope" where
  "updateRecentItem sc item left nearest_track n_ids tid =
     (let clip_position = snapToFPSGridTime_double (fps (project sc))
                            (pixelToTime_double (pixelsPerSecond sc) left);
          layer_num = (case nearest_track of None \<Rightarrow> 0 | Some number \<Rightarrow> number)
      in case item of
           Clip_ref i \<Rightarrow>
             let sc1 = sc\<lparr>project := (project sc)\<lparr>clips := (clips (project sc))
                           [i := (clips (project sc) ! i)\<lparr>position := clip_position,
                                                        layer := layer_num\<rparr>]\<rparr>\<rparr>;
                 sc2 = call (Update_clip_data (Clip_json (clips (project sc1) ! i)) True True False tid) sc1;
                 sc3 = hideSnapline (resizeTimeline sc2)
             in (case getMissingTransitions (project sc3) (clips (project sc3) ! i) of
                   Some details \<Rightarrow>
                     if Qt sc3 \<and> n_ids = 1 then call (Add_missing_transition details) sc3
                     else sc3
                 | None \<Rightarrow> sc3)
         | Transition_ref j \<Rightarrow>
             let sc1 = sc\<lparr>project := (project sc)\<lparr>effects := (effects (project sc))
                           [j := (effects (project sc) ! j)\<lparr>position := clip_position,
                                                          layer := layer_num\<rparr>]\<rparr>\<rparr>;
                 sc2 = call (Update_transition_data (Transition_json (effects (project sc1) ! j)) True False tid) sc1;
                 sc3 = hideSnapline (resizeTimeline sc2)
             in (case getMissingTransitions (project sc3) (effects (project sc3) ! j) of
                   Some details \<Rightarrow>
                     if Qt sc3 \<and> n_ids = 1 then call (Add_missing_transition details) sc3
                     else sc3
                 | None \<Rightarrow> sc3)
         | Clip_effect_ref i k \<Rightarrow> sc)"

text \<open>The proposals the host has been sent.\<close>

fun reported :: "host_call list \<Rightarrow> transition_size list" where
  "reported [] = []"
| "reported (Add_missing_transition t # cs) = t # reported cs"
| "reported (c # cs) = reported cs"

text \<open>
  Modelled from the spec: \<open>updateDraggables\<close>, the shared function the \<open>stop\<close> handlers of
  a dragged clip or transition call, is not among the sources.  Sections 4.3 and 4.6 give
  its steps for each moved entity: the final position is quantised to the FPS grid, the
  layer number is taken from \<open>y\<close>, the replica is updated, \<open>update_clip_data\<close> or
  \<open>update_transition_data\<close> is called with the shared transaction id, the timeline is
  resized and, when a single item was moved, a missing transition is queried and reported
  through \<open>add_missing_transition\<close>.  These are the steps of \<open>updateRecentItemJSON\<close>; the
  flags of the update call, which the specification does not give, are taken from it.
\<close>

definition updateDraggables ::
  "scope \<Rightarrow> item_ref \<Rightarrow> real \<Rightarrow> int option \<Rightarrow> nat \<Rightarrow> string option \<Rightarrow> scope" where
  "updateDraggables sc item left nearest_track n_moved tid =
     updateRecentItem sc item left nearest_track n_moved tid"

text \<open>
  The rule of the specification for one pair of clips, on the edges as the doubles give
  them, and what makes a clip a source of an accepted proposal.
\<close>

definition left_edge :: "'a timed_scheme \<Rightarrow> real" where
  "left_edge x = fl (position x)"

definition right_edge :: "'a timed_scheme \<Rightarrow> real" where
  "right_edge x = fadd (fl (position x)) (fsub (fl (end' x)) (fl (start x)))"

definition proposal :: "'a timed_scheme \<Rightarrow> clip \<Rightarrow> transition_size option" where
  "proposal original other =
     (if left_edge other < left_edge original \<and> left_edge original < right_edge other then
        Some \<lparr>ts_position = left_edge original, ts_layer = layer other, ts_start = 0,
               ts_end = fsub (right_edge other) (left_edge original)\<rparr>
      else if left_edge other < right_edge original \<and> right_edge original < right_edge other then
        Some \<lparr>ts_position = left_edge other, ts_layer = layer other, ts_start = 0,
               ts_end = fsub (right_edge original) (left_edge other)\<rparr>
      else None)"

definition accepted :: "'a timed_scheme \<Rightarrow> clip \<Rightarrow> bool" where
  "accepted original other =
     (layer other = layer original
      \<and> (case proposal original other of None \<Rightarrow> False | Some t \<Rightarrow> 1 / 2 \<le> ts_end t))"

definition coincides :: "transition \<Rightarrow> transition_size \<Rightarrow> bool" where
  "coincides tran t =
     (layer tran = ts_layer t
      \<and> (\<bar>fsub (left_edge tran) (fl (ts_position t))\<bar> < fl (1 / 100)
         \<or> \<bar>fsub (right_edge tran)
              (fadd (fl (ts_position t)) (fsub (fl (ts_end t)) (fl (ts_start t))))\<bar>
             < fl (1 / 100)))"

text \<open>Scenario 4: clip A from 0 to 5 and clip B, six seconds long, both on layer 1.\<close>

definition drop_scenario :: "real \<Rightarrow> scope" where
  "drop_scenario b_position =
     demo_scope\<lparr>Qt := True, project := demo_project\<lparr>clips :=
       [plain_clip ''A'' 1 0 0 5, plain_clip ''B'' 1 b_position 0 6]\<rparr>\<rparr>"

text \<open>
  A trim that creates the same overlap: clip B at position 6 shows the source from 2 s to
  8 s; its left handle is then dragged two seconds to the left.
\<close>

definition resize_overlap_scenario :: scope where
  "resize_overlap_scenario =
     demo_scope\<lparr>Qt := True, project := demo_project\<lparr>clips :=
       [plain_clip ''A'' 1 0 0 5, plain_clip ''B'' 1 6 2 8]\<rparr>\<rparr>"

section \<open>Snap engine\<close>

text \<open>
  \<open>getNearbyPosition\<close>.  An entry of \<open>diffs\<close> is the signed distance to a target and the
  pixel of the target (the \<open>id\<close> and \<open>side\<close> stored with clip edges are never read).
  \<open>ignore_ids\<close> is the list of keys of the object passed in.  The targets of visible
  keyframes are collected through \<open>getKeyframes\<close> before the main loop; the model takes
  the collected pixels as \<open>keyframeTargets\<close>, which is the empty list unless the option
  \<open>includeKeyframes\<close> is set and the frame rate is positive.
\<close>

record diff_entry =
  diff :: real
  diff_position :: real

definition push_if_near :: "real \<Rightarrow> real \<Rightarrow> real \<Rightarrow> diff_entry list" where
  "push_if_near threshold pos target =
     (if \<bar>pos - target\<bar> \<le> threshold
      then [\<lparr>diff = pos - target, diff_position = target\<rparr>] else [])"

fun edge_diffs ::
  "real \<Rightarrow> real \<Rightarrow> string list \<Rightarrow> real \<Rightarrow> 'a timed_scheme list \<Rightarrow> diff_entry list" where
  "edge_diffs pps threshold ignore_ids pos [] = []"
| "edge_diffs pps threshold ignore_ids pos (item # items) =
     (let left_position = position item * pps;
          right_position = (position item + (end' item - start item)) * pps
      in (if id' item \<in> set ignore_ids then []
          else push_if_near threshold pos left_position
               @ push_if_near threshold pos right_position)
         @ edge_diffs pps threshold ignore_ids pos items)"

fun marker_diffs :: "real \<Rightarrow> real \<Rightarrow> real \<Rightarrow> marker list \<Rightarrow> diff_entry list" where
  "marker_diffs pps threshold pos [] = []"
| "marker_diffs pps threshold pos (m # ms) =
     push_if_near threshold pos (marker_position m * pps)
     @ marker_diffs pps threshold pos ms"

fun keyframe_diffs :: "real \<Rightarrow> real \<Rightarrow> real list \<Rightarrow> diff_entry list" where
  "keyframe_diffs threshold pos [] = []"
| "keyframe_diffs threshold pos (k # ks) =
     push_if_near threshold pos k @ keyframe_diffs threshold pos ks"

text \<open>What one candidate pixel \<open>pos\<close> (the loop variable \<open>position\<close>) adds to \<open>diffs\<close>; the end of the timeline is always added.\<close>

definition position_diffs ::
  "scope \<Rightarrow> real \<Rightarrow> string list \<Rightarrow> bool \<Rightarrow> real list \<Rightarrow> real \<Rightarrow> diff_entry list" where
  "position_diffs sc threshold ignore_ids includeKeyframeSnaps keyframeTargets pos =
     (let pps = pixelsPerSecond sc;
          playhead_pixel_position = playhead_position (project sc) * pps;
          end_of_track = duration (project sc) * pps
      in edge_diffs pps threshold ignore_ids pos (clips (project sc))
         @ edge_diffs pps threshold ignore_ids pos (effects (project sc))
         @ marker_diffs pps threshold pos (markers (project sc))
         @ (if ''ruler'' \<notin> set ignore_ids \<and> ''playhead'' \<notin> set ignore_ids
            then push_if_near threshold pos playhead_pixel_position else [])
         @ [\<lparr>diff = pos - end_of_track, diff_position = end_of_track\<rparr>]
         @ (if includeKeyframeSnaps then keyframe_diffs threshold pos keyframeTargets
            else []))"

text \<open>
  The search for the smallest difference; the state is \<open>(smallest_diff, smallest_abs_diff,
  snapping_position)\<close>.  The test \<open>&& diff_position\<close> is the truthiness of a number: it
  fails for zero.
\<close>

fun smallest :: "real \<Rightarrow> diff_entry list \<Rightarrow> real \<times> real \<times> real \<Rightarrow> real \<times> real \<times> real" where
  "smallest threshold [] st = st"
| "smallest threshold (e # es) (smallest_diff, smallest_abs_diff, snapping_position) =
     (let abs_diff = \<bar>diff e\<bar>
      in if abs_diff < smallest_abs_diff \<and> abs_diff \<le> threshold \<and> diff_position e \<noteq> 0
         then smallest threshold es (diff e, abs_diff, diff_position e)
         else smallest threshold es (smallest_diff, smallest_abs_diff, snapping_position))"

text \<open>
  The loop over the candidate pixels: the array \<open>diffs\<close> (here \<open>entries\<close>) is declared outside
  it and keeps growing,
  and every round searches all of it.
\<close>

fun positions_loop ::
  "scope \<Rightarrow> real \<Rightarrow> string list \<Rightarrow> bool \<Rightarrow> real list \<Rightarrow> real list
     \<Rightarrow> diff_entry list \<times> real \<times> real \<times> real \<Rightarrow> diff_entry list \<times> real \<times> real \<times> real" where
  "positions_loop sc threshold ignore_ids ik kts [] st = st"
| "positions_loop sc threshold ignore_ids ik kts (pos # rest) (entries, best) =
     (let entries' = entries @ position_diffs sc threshold ignore_ids ik kts pos
      in positions_loop sc threshold ignore_ids ik kts rest
           (entries', smallest threshold entries' best))"

definition getNearbyPosition ::
  "scope \<Rightarrow> real list \<Rightarrow> real \<Rightarrow> string list \<Rightarrow> bool \<Rightarrow> real list \<Rightarrow> real \<times> real" where
  "getNearbyPosition sc pixel_positions threshold ignore_ids includeKeyframeSnaps keyframeTargets =
     (case positions_loop sc threshold ignore_ids includeKeyframeSnaps keyframeTargets
             pixel_positions ([], 900, 900, 0) of
        (entries, smallest_diff, smallest_abs_diff, snapping_position) \<Rightarrow>
          (if smallest_diff = 900 then 0 else smallest_diff, snapping_position))"

text \<open>
  All entries the call collects, and the answer read off a list of entries in one pass.
\<close>

definition all_diffs ::
  "scope \<Rightarrow> real list \<Rightarrow> real \<Rightarrow> string list \<Rightarrow> bool \<Rightarrow> real list \<Rightarrow> diff_entry list" where
  "all_diffs sc pixel_positions threshold ignore_ids ik kts =
     concat (map (position_diffs sc threshold ignore_ids ik kts) pixel_positions)"

definition nearest :: "real \<Rightarrow> diff_entry list \<Rightarrow> real \<times> real" where
  "nearest threshold entries =
     (case smallest threshold entries (900, 900, 0) of
        (smallest_diff, smallest_abs_diff, snapping_position) \<Rightarrow>
          (if smallest_diff = 900 then 0 else smallest_diff, snapping_position))"

text \<open>A clip that starts at time 0, with the playhead and the end of the timeline far away.\<close>

definition snap_scenario :: "real \<Rightarrow> scope" where
  "snap_scenario clip_position =
     demo_scope\<lparr>pixelsPerSecond := 10, project := demo_project\<lparr>playhead_position := 20,
       clips := [plain_clip ''A'' 1 clip_position 0 5]\<rparr>\<rparr>"

text \<open>An entry the search can select: within the threshold, at a non-zero pixel.\<close>

definition eligible :: "real \<Rightarrow> diff_entry \<Rightarrow> bool" where
  "eligible thr e = (\<bar>diff e\<bar> \<le> thr \<and> diff_position e \<noteq> 0)"

section \<open>Keyframe preview during trim and retime\<close>

text \<open>
  The clip directive keeps the preview window in \<open>clip.ui.keyframe_preview\<close>.
  \<open>ensureKeyframePreviewContainer\<close> creates an empty object when there is none: every
  field of it is \<open>undefined\<close>.
\<close>

definition empty_container :: preview where
  "empty_container =
     \<lparr>active = False, mode = [], originalStart = None, originalEnd = None,
      stored_originalDuration = None, displayStart = None, displayEnd = None,
      stored_displayDuration = None,
      projectedStart = None, projectedEnd = None, preview_pixelsPerSecond = None\<rparr>"

definition ensureKeyframePreviewContainer :: "clip \<Rightarrow> preview" where
  "ensureKeyframePreviewContainer c =
     (case keyframe_preview c of None \<Rightarrow> empty_container | Some container \<Rightarrow> container)"

definition startKeyframePreview :: "string \<Rightarrow> tl_clip \<Rightarrow> scope \<Rightarrow> scope" where
  "startKeyframePreview m d sc =
     set_clip (\<lambda>c.
       let container = ensureKeyframePreviewContainer c;
           f = fps (project sc);
           clipStart = snapToFPSGridTime f (start c);
           clipEnd = snapToFPSGridTime f (end' c);
           oStart = (if m = ''retime'' then snapToFPSGridTime f (timing_original_start d)
                     else clipStart);
           oEnd = (if m = ''retime'' then snapToFPSGridTime f (timing_original_end d)
                   else clipEnd)
       in c\<lparr>keyframe_preview := Some (container\<lparr>
             active := True, mode := m,
             originalStart := Some oStart, originalEnd := Some oEnd,
             stored_originalDuration := Some (max (oEnd - oStart) 0),
             displayStart := Some clipStart, displayEnd := Some clipEnd,
             stored_displayDuration := Some (max (clipEnd - clipStart) 0),
             projectedStart := Some (if m = ''trim'' then clipStart else oStart),
             projectedEnd := Some (if m = ''trim'' then clipEnd else oEnd),
             preview_pixelsPerSecond := Some (pixelsPerSecond sc)\<rparr>)\<rparr>) d sc"

definition updateKeyframePreview :: "real \<Rightarrow> real \<Rightarrow> tl_clip \<Rightarrow> scope \<Rightarrow> scope" where
  "updateKeyframePreview dStart dEnd d sc =
     set_clip (\<lambda>c.
       let container = ensureKeyframePreviewContainer c in
       if \<not> active container then c\<lparr>keyframe_preview := Some container\<rparr>
       else
         let f = fps (project sc);
             startSec0 = snapToFPSGridTime f dStart;
             endSec0 = snapToFPSGridTime f dEnd;
             startSec = (if endSec0 < startSec0 then endSec0 else startSec0);
             endSec = (if endSec0 < startSec0 then startSec0 else endSec0);
             originStart = toNumber (originalStart container) startSec;
             originEnd0 = toNumber (originalEnd container) originStart;
             originEnd = (if originEnd0 < originStart then originStart else originEnd0)
         in c\<lparr>keyframe_preview := Some (container\<lparr>
               displayStart := Some startSec, displayEnd := Some endSec,
               stored_displayDuration := Some (max (endSec - startSec) 0),
               projectedStart := Some (if mode container = ''trim'' then startSec else originStart),
               projectedEnd := Some (if mode container = ''trim'' then endSec else originEnd),
               preview_pixelsPerSecond := Some (pixelsPerSecond sc)\<rparr>)\<rparr>) d sc"

text \<open>
  \<open>renderKeyframePreview\<close> moves every keyframe icon of the clip.  For the icon of frame
  \<open>frameValue\<close> it computes \<open>mappedSeconds\<close> and from it the new \<open>left\<close> in pixels.  The
  function returns early, moving nothing, unless the preview is active.
\<close>

definition render_fps :: "scope \<Rightarrow> real" where
  "render_fps sc =
     (let fps_num = fps_num (fps (project sc));
          fps_den = fps_den (fps (project sc));
          frames_per_second = (if fps_den \<noteq> 0 then fps_num / fps_den else 0)
      in if frames_per_second \<le> 0 then 1 else frames_per_second)"

definition render_mappedSeconds :: "scope \<Rightarrow> clip \<Rightarrow> preview \<Rightarrow> real \<Rightarrow> real" where
  "render_mappedSeconds sc c pv frameValue =
     (let clipStart = start c;
          dStart = toNumber (displayStart pv) clipStart;
          dEnd0 = toNumber (displayEnd pv) dStart;
          dEnd = (if dEnd0 < dStart then dStart else dEnd0);
          dDuration = max (dEnd - dStart) 0;
          oStart = toNumber (originalStart pv) clipStart;
          oEnd0 = toNumber (originalEnd pv) oStart;
          oEnd = (if oEnd0 < oStart then oStart else oEnd0);
          oDuration = max (oEnd - oStart) 0;
          hasRetimeMapping = (mode pv = ''retime'' \<and> oDuration > 0 \<and> dDuration > 0);
          frameSeconds = (frameValue - 1) / render_fps sc
      in if hasRetimeMapping
         then dStart + ((frameSeconds - oStart) / oDuration) * dDuration
         else frameSeconds)"

definition render_left :: "scope \<Rightarrow> clip \<Rightarrow> preview \<Rightarrow> real \<Rightarrow> int" where
  "render_left sc c pv frameValue =
     (let pxPerSecond0 = toNumber (preview_pixelsPerSecond pv) (pixelsPerSecond sc);
          pxPerSecond = (if pxPerSecond0 \<le> 0 then 1 else pxPerSecond0);
          dStart = toNumber (displayStart pv) (start c);
          relativeSeconds = render_mappedSeconds sc c pv frameValue - dStart
      in Math_round (relativeSeconds * pxPerSecond))"

text \<open>
  The keyframe enumerator \<open>getKeyframes\<close> maps the seconds of a keyframe before it tests
  them against the preview window.  These are its local functions, for the \<open>object\<close>
  being enumerated at the frame rate \<open>frames_per_second\<close>; \<open>preview\<close> is the container
  when it is active.
\<close>

definition active_preview :: "clip \<Rightarrow> preview option" where
  "active_preview object =
     (case keyframe_preview object of
        None \<Rightarrow> None
      | Some pv \<Rightarrow> if active pv then Some pv else None)"

record preview_window =
  previewDisplayStart :: real
  previewDisplayEnd :: real
  previewProjectedStart :: real
  previewProjectedEnd :: real

definition clip_end_sec :: "clip \<Rightarrow> real" where
  "clip_end_sec object = (if end' object < start object then start object else end' object)"

definition window :: "clip \<Rightarrow> preview_window" where
  "window object =
     (let clip_start_sec = start object;
          clip_end_sec = clip_end_sec object;
          preview = active_preview object;
          ds = (case preview of Some pv \<Rightarrow> toNumber (displayStart pv) clip_start_sec
                | None \<Rightarrow> clip_start_sec);
          de = (case preview of Some pv \<Rightarrow> toNumber (displayEnd pv) clip_end_sec
                | None \<Rightarrow> clip_end_sec);
          ps = (case preview of Some pv \<Rightarrow> toNumber (projectedStart pv) clip_start_sec
                | None \<Rightarrow> clip_start_sec);
          pe = (case preview of Some pv \<Rightarrow> toNumber (projectedEnd pv) clip_end_sec
                | None \<Rightarrow> clip_end_sec)
      in \<lparr>previewDisplayStart = (if de < ds then de else ds),
          previewDisplayEnd = (if de < ds then ds else de),
          previewProjectedStart = ps,
          previewProjectedEnd = (if pe < ps then ps else pe)\<rparr>)"

definition mapSecondsToDisplay :: "clip \<Rightarrow> real \<Rightarrow> real" where
  "mapSecondsToDisplay object seconds =
     (let w = window object;
          dDuration = max (previewDisplayEnd w - previewDisplayStart w) 0;
          pDuration = max (previewProjectedEnd w - previewProjectedStart w) 0
      in case active_preview object of
           None \<Rightarrow> seconds
         | Some pv \<Rightarrow>
             if mode pv \<noteq> ''retime'' then seconds
             else if \<not> pDuration > 0 \<or> \<not> dDuration > 0 then previewDisplayStart w
             else previewDisplayStart w
                    + ((seconds - previewProjectedStart w) / pDuration) * dDuration)"

definition frameTolerance :: "real \<Rightarrow> real" where
  "frameTolerance frames_per_second =
     (if frames_per_second > 0 then max (1 / 1000000) ((1 / 2) / frames_per_second)
      else 1 / 1000000)"

definition isInside :: "real \<Rightarrow> real \<Rightarrow> real \<Rightarrow> real \<Rightarrow> bool" where
  "isInside frames_per_second seconds s e =
     (seconds \<ge> s - frameTolerance frames_per_second
      \<and> seconds \<le> e + frameTolerance frames_per_second)"

definition isInsidePreview :: "real \<Rightarrow> clip \<Rightarrow> real \<Rightarrow> bool" where
  "isInsidePreview frames_per_second object seconds =
     (case active_preview object of
        None \<Rightarrow> isInside frames_per_second seconds (start object) (clip_end_sec object)
      | Some pv \<Rightarrow>
          if mode pv = ''retime''
          then isInside frames_per_second (mapSecondsToDisplay object seconds)
                 (previewDisplayStart (window object)) (previewDisplayEnd (window object))
          else isInside frames_per_second seconds
                 (previewDisplayStart (window object)) (previewDisplayEnd (window object)))"

text \<open>
  A retime in progress: the clip shows 0 s to 4 s, timing mode is on, the view is zoomed to
  100 pixels per second, the resize has started, and the right handle has been pushed back
  until the clip is narrower than half a frame.
\<close>

definition retime_scenario :: scope where
  "retime_scenario =
     demo_scope\<lparr>enable_timing := True, pixelsPerSecond := 100,
       project := demo_project\<lparr>clips := [plain_clip ''A'' 1 0 0 4]\<rparr>\<rparr>"

definition retime_directive :: tl_clip where
  "retime_directive =
     \<lparr>clip_index = 0, dragLoc = Some Right, resize_disabled = False,
      timing_original_start = 0, timing_original_end = 4, timing_original_audio = None,
      timing_original_duration = 4\<rparr>"

definition squeezed :: "real \<Rightarrow> scope" where
  "squeezed previewEnd =
     updateKeyframePreview 0 previewEnd retime_directive
       (startKeyframePreview ''retime'' retime_directive retime_scenario)"

section \<open>Selection state machine\<close>

record event =
  ctrlKey :: bool
  shiftKey :: bool
  altKey :: bool
  clientX :: real

text \<open>\<open>String.prototype.replace\<close> with a string pattern: the first occurrence only.\<close>

fun replace_first :: "string \<Rightarrow> string \<Rightarrow> string \<Rightarrow> string" where
  "replace_first pat rep [] = (if pat = [] then rep else [])"
| "replace_first pat rep (c # cs) =
     (if take (length pat) (c # cs) = pat then rep @ drop (length pat) (c # cs)
      else c # replace_first pat rep cs)"

fun first_index :: "('a \<Rightarrow> bool) \<Rightarrow> 'a list \<Rightarrow> nat option" where
  "first_index P [] = None"
| "first_index P (x # xs) =
     (if P x then Some 0 else map_option Suc (first_index P xs))"

text \<open>
  An item is referred to by where it sits: a clip or a transition by its index, the effect
  of a clip by the index of the clip and its own.  \<open>find_effect\<close> is the search
  ``global effects first, then the effects of every clip''.
\<close>

fun find_clip_effect :: "string \<Rightarrow> clip list \<Rightarrow> nat \<Rightarrow> item_ref option" where
  "find_clip_effect i [] j = None"
| "find_clip_effect i (c # cs) j =
     (case first_index (\<lambda>e. effect_id e = i) (clip_effects c) of
        Some k \<Rightarrow> Some (Clip_effect_ref j k)
      | None \<Rightarrow> find_clip_effect i cs (Suc j))"

definition find_item :: "project \<Rightarrow> string \<Rightarrow> string \<Rightarrow> item_ref option" where
  "find_item p item_type i =
     (if item_type = ''clip''
        then map_option Clip_ref (first_index (\<lambda>item. id' item = i) (clips p))
      else if item_type = ''transition''
        then map_option Transition_ref (first_index (\<lambda>item. id' item = i) (effects p))
      else if item_type = ''effect''
        then (case first_index (\<lambda>item. id' item = i) (effects p) of
                Some j \<Rightarrow> Some (Transition_ref j)
              | None \<Rightarrow> find_clip_effect i (clips p) 0)
      else None)"

definition when_Qt :: "scope \<Rightarrow> host_call list \<Rightarrow> host_call list" where
  "when_Qt sc cs = (if Qt sc then cs else [])"

definition calls :: "host_call list \<Rightarrow> scope \<Rightarrow> scope" where
  "calls cs sc = sc\<lparr>host := host sc @ cs\<rparr>"

definition set_clips :: "clip list \<Rightarrow> scope \<Rightarrow> scope" where
  "set_clips cs sc = sc\<lparr>project := (project sc)\<lparr>clips := cs\<rparr>\<rparr>"

definition set_effects :: "transition list \<Rightarrow> scope \<Rightarrow> scope" where
  "set_effects ts sc = sc\<lparr>project := (project sc)\<lparr>effects := ts\<rparr>\<rparr>"

text \<open>Clearing every clip together with its effects, and every transition.\<close>

definition unselect_effects :: "clip \<Rightarrow> clip" where
  "unselect_effects c = c\<lparr>clip_effects := map (\<lambda>e. e\<lparr>effect_selected := False\<rparr>) (clip_effects c)\<rparr>"

definition clear_clips_and_effects :: "scope \<Rightarrow> scope" where
  "clear_clips_and_effects sc =
     calls (when_Qt sc (concat (map (\<lambda>c.
               map (\<lambda>e. RemoveSelection (effect_id e) ''effect'') (clip_effects c)
               @ [RemoveSelection (id' c) ''clip'']) (clips (project sc)))))
       (set_clips (map (\<lambda>c. (unselect_effects c)\<lparr>selected := False\<rparr>) (clips (project sc))) sc)"

definition clear_transitions :: "string \<Rightarrow> scope \<Rightarrow> scope" where
  "clear_transitions as_type sc =
     calls (when_Qt sc (map (\<lambda>t. RemoveSelection (id' t) as_type) (effects (project sc))))
       (set_effects (map (\<lambda>t. t\<lparr>selected := False\<rparr>) (effects (project sc))) sc)"

text \<open>The branch for an empty id.\<close>

definition clear_type :: "string \<Rightarrow> scope \<Rightarrow> scope" where
  "clear_type item_type sc =
     (if item_type = ''clip'' then
        calls (when_Qt sc (map (\<lambda>c. RemoveSelection (id' c) ''clip'') (clips (project sc))))
          (set_clips (map (\<lambda>c. c\<lparr>selected := False\<rparr>) (clips (project sc))) sc)
      else if item_type = ''transition'' then clear_transitions ''transition'' sc
      else if item_type = ''effect'' then
        (let sc1 = clear_transitions ''effect'' sc in
         calls (when_Qt sc1 (concat (map (\<lambda>c.
                   map (\<lambda>e. RemoveSelection (effect_id e) ''effect'') (clip_effects c))
                   (clips (project sc1)))))
           (set_clips (map unselect_effects (clips (project sc1))) sc1))
      else sc)"

text \<open>
  \<open>getJavaScriptPosition(x, null).position\<close>, the time under the cursor, never negative.
\<close>

definition cursor_position :: "scope \<Rightarrow> real \<Rightarrow> real" where
  "cursor_position sc x =
     (let clip_position = snapToFPSGridTime (fps (project sc))
            (pixelToTime (pixelsPerSecond sc)
               (x + scrolling_tracks_scrollLeft sc - scrolling_tracks_offset_left sc))
      in if clip_position < 0 then 0 else clip_position)"

text \<open>
  The ripple branch: everything at or to the right of the anchor on its layer is selected.
  What follows under ``clear previous selections'' changes no \<open>selected\<close> flag: it tells the
  host to remove the items that are not selected at that point.
\<close>

definition ripple :: "string \<Rightarrow> string \<Rightarrow> bool \<Rightarrow> bool \<Rightarrow> scope \<Rightarrow> scope" where
  "ripple item_type i clear_selections is_ctrl sc =
     (let selected_item = find_item (project sc) item_type i;
          sc1 =
            (case selected_item of
               Some (Clip_ref n) \<Rightarrow>
                 (if item_type = ''clip'' \<or> item_type = ''transition'' then
                    let selected_layer = layer (clips (project sc) ! n);
                        selected_position = position (clips (project sc) ! n);
                        hit = (\<lambda>x. layer x = selected_layer \<and> position x \<ge> selected_position);
                        hit' = (\<lambda>x. layer x = selected_layer \<and> position x \<ge> selected_position)
                    in calls (when_Qt sc
                                (map (\<lambda>c. AddSelection (id' c) ''clip'' False)
                                   (filter hit (clips (project sc)))
                                 @ map (\<lambda>t. AddSelection (id' t) ''transition'' False)
                                     (filter hit' (effects (project sc)))))
                         (set_effects (map (\<lambda>t. if hit' t then t\<lparr>selected := True\<rparr> else t)
                                         (effects (project sc)))
                            (set_clips (map (\<lambda>c. if hit c then c\<lparr>selected := True\<rparr> else c)
                                          (clips (project sc))) sc))
                  else sc)
             | Some (Transition_ref n) \<Rightarrow>
                 (if item_type = ''clip'' \<or> item_type = ''transition'' then
                    let selected_layer = layer (effects (project sc) ! n);
                        selected_position = position (effects (project sc) ! n);
                        hit = (\<lambda>x. layer x = selected_layer \<and> position x \<ge> selected_position);
                        hit' = (\<lambda>x. layer x = selected_layer \<and> position x \<ge> selected_position)
                    in calls (when_Qt sc
                                (map (\<lambda>c. AddSelection (id' c) ''clip'' False)
                                   (filter hit (clips (project sc)))
                                 @ map (\<lambda>t. AddSelection (id' t) ''transition'' False)
                                     (filter hit' (effects (project sc)))))
                         (set_effects (map (\<lambda>t. if hit' t then t\<lparr>selected := True\<rparr> else t)
                                         (effects (project sc)))
                            (set_clips (map (\<lambda>c. if hit c then c\<lparr>selected := True\<rparr> else c)
                                          (clips (project sc))) sc))
                  else sc)
             | _ \<Rightarrow> sc)
      in if clear_selections \<and> \<not> is_ctrl then
           calls (when_Qt sc1
                    (concat (map (\<lambda>c.
                        (if \<not> selected c then [RemoveSelection (id' c) ''clip''] else [])
                        @ map (\<lambda>e. RemoveSelection (effect_id e) ''effect'')
                            (filter (\<lambda>e. \<not> effect_selected e) (clip_effects c)))
                        (clips (project sc1)))
                     @ map (\<lambda>t. RemoveSelection (id' t) ''transition'')
                         (filter (\<lambda>t. \<not> selected t) (effects (project sc1))))) sc1
         else sc1)"

text \<open>The range of a shift-click, between the clicked item and the last selected one.\<close>

definition item_extent :: "project \<Rightarrow> item_ref \<Rightarrow> (real \<times> real \<times> int) option" where
  "item_extent p r =
     (case r of
        Clip_ref n \<Rightarrow>
          let x = clips p ! n in Some (position x, position x + (end' x - start x), layer x)
      | Transition_ref n \<Rightarrow>
          let x = effects p ! n in Some (position x, position x + (end' x - start x), layer x)
      | Clip_effect_ref n k \<Rightarrow> None)"

definition shift_range :: "string \<Rightarrow> string \<Rightarrow> scope \<Rightarrow> scope" where
  "shift_range item_type i sc =
     (let selectedItem =
            (if item_type = ''clip''
             then map_option Clip_ref (first_index (\<lambda>item. id' item = i) (clips (project sc)))
             else map_option Transition_ref
                    (first_index (\<lambda>item. id' item = i) (effects (project sc))))
      in case (selectedItem, lastSelectedItem sc) of
           (Some s, Some l) \<Rightarrow>
             (case (item_extent (project sc) s, item_extent (project sc) l) of
                (Some (sStart, sEnd, sLayer), Some (lStart, lEnd, lLayer)) \<Rightarrow>
                  let minPosition = min sStart lStart;
                      maxPosition = max sEnd lEnd;
                      minLayer = min lLayer sLayer;
                      maxLayer = max lLayer sLayer;
                      hit = (\<lambda>x. position x \<ge> minPosition
                                  \<and> position x + (end' x - start x) \<le> maxPosition
                                  \<and> layer x \<ge> minLayer \<and> layer x \<le> maxLayer);
                      hit' = (\<lambda>x. position x \<ge> minPosition
                                  \<and> position x + (end' x - start x) \<le> maxPosition
                                  \<and> layer x \<ge> minLayer \<and> layer x \<le> maxLayer)
                  in calls (when_Qt sc
                              (map (\<lambda>c. AddSelection (id' c) ''clip'' False)
                                 (filter hit (clips (project sc)))
                               @ map (\<lambda>t. AddSelection (id' t) ''transition'' False)
                                   (filter hit' (effects (project sc)))))
                       (set_effects (map (\<lambda>t. if hit' t then t\<lparr>selected := True\<rparr> else t)
                                       (effects (project sc)))
                          (set_clips (map (\<lambda>c. if hit c then c\<lparr>selected := True\<rparr> else c)
                                        (clips (project sc))) sc))
              | _ \<Rightarrow> sc)
         | _ \<Rightarrow> sc)"

text \<open>Reading and writing the \<open>selected\<close> flag of a located item.\<close>

definition item_selected :: "project \<Rightarrow> item_ref \<Rightarrow> bool" where
  "item_selected p r =
     (case r of
        Clip_ref n \<Rightarrow> selected (clips p ! n)
      | Transition_ref n \<Rightarrow> selected (effects p ! n)
      | Clip_effect_ref n k \<Rightarrow> effect_selected (clip_effects (clips p ! n) ! k))"

definition id_of_item :: "project \<Rightarrow> item_ref \<Rightarrow> string" where
  "id_of_item p r =
     (case r of
        Clip_ref n \<Rightarrow> id' (clips p ! n)
      | Transition_ref n \<Rightarrow> id' (effects p ! n)
      | Clip_effect_ref n k \<Rightarrow> effect_id (clip_effects (clips p ! n) ! k))"

definition set_item_selected :: "item_ref \<Rightarrow> bool \<Rightarrow> scope \<Rightarrow> scope" where
  "set_item_selected r b sc =
     (case r of
        Clip_ref n \<Rightarrow>
          set_clips ((clips (project sc))[n := (clips (project sc) ! n)\<lparr>selected := b\<rparr>]) sc
      | Transition_ref n \<Rightarrow>
          set_effects ((effects (project sc))[n := (effects (project sc) ! n)\<lparr>selected := b\<rparr>]) sc
      | Clip_effect_ref n k \<Rightarrow>
          let c = clips (project sc) ! n in
          set_clips ((clips (project sc))[n := c\<lparr>clip_effects :=
              (clip_effects c)[k := (clip_effects c ! k)\<lparr>effect_selected := b\<rparr>]\<rparr>]) sc)"

definition plain_select :: "string \<Rightarrow> string \<Rightarrow> bool \<Rightarrow> bool \<Rightarrow> scope \<Rightarrow> scope" where
  "plain_select item_type i clear_selections is_ctrl sc =
     (let sc1 = (if clear_selections \<and> \<not> is_ctrl
                 then clear_transitions ''effect''
                        (clear_transitions ''transition'' (clear_clips_and_effects sc))
                 else sc)
      in case find_item (project sc1) item_type i of
           None \<Rightarrow> sc1
         | Some r \<Rightarrow>
             if is_ctrl \<and> clear_selections \<and> item_selected (project sc1) r
             then calls (when_Qt sc1 [RemoveSelection (id_of_item (project sc1) r) item_type])
                    (set_item_selected r False sc1)
             else calls (when_Qt sc1 [AddSelection (id_of_item (project sc1) r) item_type False])
                    (set_item_selected r True sc1))"

definition selectItem ::
  "scope \<Rightarrow> string \<Rightarrow> string \<Rightarrow> bool \<Rightarrow> event option \<Rightarrow> bool \<Rightarrow> scope" where
  "selectItem sc item_id item_type clear_selections ev force_ripple =
     (if dragging sc then call (Qt_log ''DEBUG'' ''Skip selection due to dragging...'') sc
      else
        let i = replace_first (item_type @ ''_'') [] item_id;
            is_ctrl = (case ev of None \<Rightarrow> False | Some e \<Rightarrow> ctrlKey e);
            is_shift = (case ev of None \<Rightarrow> False | Some e \<Rightarrow> shiftKey e);
            is_alt = (case ev of None \<Rightarrow> False | Some e \<Rightarrow> altKey e)
        in if i = [] then (if clear_selections then clear_type item_type sc else sc)
           else if enable_razor sc \<and> Qt sc \<and> ev \<noteq> None then
             call (RazorSliceAtCursor (if item_type = ''clip'' then i else [])
                     (if item_type = ''transition'' then i else [])
                     (cursor_position sc (clientX (the ev)))) sc
           else if is_alt \<or> force_ripple then ripple item_type i clear_selections is_ctrl sc
           else
             let sc1 =
                   (if is_shift \<and> lastSelectedItem sc \<noteq> None
                       \<and> (item_type = ''clip'' \<or> item_type = ''transition'')
                    then shift_range item_type i
                           (if clear_selections \<and> \<not> is_ctrl
                            then clear_transitions ''transition'' (clear_clips_and_effects sc)
                            else sc)
                    else plain_select item_type i clear_selections is_ctrl sc)
             in if \<not> is_alt
                then sc1\<lparr>lastSelectedItem := find_item (project sc1) item_type i\<rparr>
                else sc1)"

text \<open>
  Two clips on different layers, the second one selected; the user then alt-clicks the
  first.
\<close>

definition ripple_scenario :: scope where
  "ripple_scenario =
     demo_scope\<lparr>Qt := True, project := demo_project\<lparr>clips :=
       [plain_clip ''a'' 1 0 0 5, (plain_clip ''b'' 2 3 0 5)\<lparr>selected := True\<rparr>]\<rparr>\<rparr>"

definition alt_click :: event where
  "alt_click = \<lparr>ctrlKey = False, shiftKey = False, altKey = True, clientX = 0\<rparr>"

section \<open>Applying a JSON diff\<close>

record action =
  action_type :: string
  action_key :: "json list"
  action_value :: json

text \<open>
  The walk along the key of one action.  \<open>previous_object\<close> and \<open>current_object\<close> are
  references into the project: each is kept as the path to it, \<open>current_object\<close> together
  with its value, since a property read from an array or a string can be a number that
  sits nowhere in the tree.
\<close>

record walk =
  previous_object :: "path option"
  current_object :: json
  current_path :: path
  current_position :: nat
  current_key :: string

fun find_child :: "json \<Rightarrow> json list \<Rightarrow> nat \<Rightarrow> (nat \<times> json option) result" where
  "find_child i [] n = Returned (n, None)"
| "find_child i (child_object # rest) n =
     (case child_object of
        JNull \<Rightarrow> TypeError
      | JObj fs \<Rightarrow>
          (case map_of fs ''id'' of
             Some v \<Rightarrow> if strict_eq v i then Returned (n, Some child_object)
                       else find_child i rest (Suc n)
           | None \<Rightarrow> find_child i rest (Suc n))
      | _ \<Rightarrow> find_child i rest (Suc n))"

definition key_step :: "json \<Rightarrow> walk \<Rightarrow> walk result" where
  "key_step key_value w =
     (case key_value of
        JStr k \<Rightarrow>
          (if current_object w = JNull then TypeError
           else case own_property (current_object w) k of
                  None \<Rightarrow> Returned w
                | Some (v, s) \<Rightarrow>
                    Returned (w\<lparr>previous_object := Some (current_path w),
                                current_object := v,
                                current_path := current_path w @ [s],
                                current_key := k\<rparr>))
      | JObj key_fields \<Rightarrow>
          (let i = (case map_of key_fields ''id'' of None \<Rightarrow> JNull | Some v \<Rightarrow> v)
           in case current_object w of
                JNull \<Rightarrow> TypeError
              | JArr xs \<Rightarrow>
                  (case find_child i xs 0 of
                     TypeError \<Rightarrow> TypeError
                   | Returned (n, None) \<Rightarrow> Returned (w\<lparr>current_position := n\<rparr>)
                   | Returned (n, Some child_object) \<Rightarrow>
                       Returned (w\<lparr>previous_object := Some (current_path w),
                                   current_object := child_object,
                                   current_path := current_path w @ [Index n],
                                   current_position := n\<rparr>))
              | _ \<Rightarrow> Returned w)
      | JNull \<Rightarrow> TypeError
      | _ \<Rightarrow> Returned w)"

fun key_walk :: "json list \<Rightarrow> walk \<Rightarrow> walk result" where
  "key_walk [] w = Returned w"
| "key_walk (key_value # rest) w =
     (case key_step key_value w of TypeError \<Rightarrow> TypeError | Returned w' \<Rightarrow> key_walk rest w')"

text \<open>
  ``Replace the entire value'': the slot \<open>current_position\<close> when the previous object is an
  array, the property \<open>current_key\<close> when it is an object.
\<close>

definition replace_in_previous :: "walk \<Rightarrow> json \<Rightarrow> json \<Rightarrow> json result" where
  "replace_in_previous w v tree =
     (case previous_object w of
        None \<Rightarrow> TypeError
      | Some p \<Rightarrow>
          Returned (modify p (\<lambda>prev. case prev of
                       JArr xs \<Rightarrow> JArr (set_slot (current_position w) v xs)
                     | JObj fs \<Rightarrow> JObj (set_field (current_key w) v fs)
                     | _ \<Rightarrow> prev) tree))"

definition apply_action :: "action \<Rightarrow> json \<Rightarrow> json result" where
  "apply_action a tree =
     (case key_walk (action_key a)
             \<lparr>previous_object = None, current_object = tree, current_path = [],
              current_position = 0, current_key = []\<rparr> of
        TypeError \<Rightarrow> TypeError
      | Returned w \<Rightarrow>
          if \<not> truthy (current_object w) then Returned tree
          else if action_type a = ''insert'' then
            (case current_object w of
               JArr xs \<Rightarrow>
                 Returned (modify (current_path w)
                             (\<lambda>cur. case cur of JArr ys \<Rightarrow> JArr (ys @ [action_value a])
                                     | _ \<Rightarrow> cur) tree)
             | _ \<Rightarrow> replace_in_previous w (action_value a) tree)
          else if action_type a = ''update'' then
            (case current_object w of
               JObj fs \<Rightarrow>
                 (case action_value a of
                    JNull \<Rightarrow> TypeError
                  | JObj new_fields \<Rightarrow>
                      Returned (modify (current_path w)
                                  (\<lambda>cur. case cur of
                                       JObj old \<Rightarrow> JObj (fold (\<lambda>(k, v). set_field k v) new_fields old)
                                     | _ \<Rightarrow> cur) tree)
                  | _ \<Rightarrow> replace_in_previous w (action_value a) tree)
             | _ \<Rightarrow> replace_in_previous w (action_value a) tree)
          else if action_type a = ''delete'' then
            (case previous_object w of
               None \<Rightarrow> TypeError
             | Some p \<Rightarrow>
                 Returned (modify p (\<lambda>prev. case prev of
                              JArr xs \<Rightarrow> JArr (splice1 (current_position w) xs)
                            | JObj fs \<Rightarrow> JObj (delete_field (current_key w) fs)
                            | _ \<Rightarrow> prev) tree))
          else Returned tree)"

text \<open>
  The whole call: the actions in order, stopped by the first exception.  The re-sort and
  the re-indexing of the layers that follow an action are queued for a later tick and are
  no part of it.  The result is the project and whether the call returned.
\<close>

fun applyJsonDiff :: "action list \<Rightarrow> json \<Rightarrow> json \<times> bool" where
  "applyJsonDiff [] tree = (tree, True)"
| "applyJsonDiff (a # jsonDiff) tree =
     (case apply_action a tree of
        TypeError \<Rightarrow> (tree, False)
      | Returned tree' \<Rightarrow> applyJsonDiff jsonDiff tree')"

text \<open>The demo project as a tree, with one clip.\<close>

definition demo_tree :: json where
  "demo_tree =
     JObj [(''fps'', JObj [(''num'', JNum 24), (''den'', JNum 1)]),
           (''duration'', JNum 300),
           (''scale'', JNum 16),
           (''tick_pixels'', JNum 100),
           (''playhead_position'', JNum 0),
           (''clips'', JArr [JObj [(''id'', JStr ''C1''), (''layer'', JNum 1),
                                   (''position'', JNum 0), (''start'', JNum 0),
                                   (''end'', JNum 4)]]),
           (''effects'', JArr []),
           (''layers'', JArr [JObj [(''id'', JStr ''L1''), (''number'', JNum 1),
                                    (''y'', JNum 0), (''label'', JStr []),
                                    (''lock'', JBool False)]]),
           (''markers'', JArr []),
           (''progress'', JObj [])]"

text \<open>
  Two actions that match nothing: an update under a property the project does not have,
  and the deletion of a clip whose id is not in \<open>clips\<close>.
\<close>

definition unknown_property_update :: action where
  "unknown_property_update =
     \<lparr>action_type = ''update'', action_key = [JStr ''nonexistent''],
      action_value = JObj [(''duration'', JNum 10)]\<rparr>"

definition unknown_id_delete :: action where
  "unknown_id_delete =
     \<lparr>action_type = ''delete'', action_key = [JStr ''clips'', JObj [(''id'', JStr ''zzz'')]],
      action_value = JNull\<rparr>"

section \<open>Moving keyframes from one frame to another\<close>

text \<open>
  \<open>moveKeyframes\<close> rewrites \<open>co.X\<close> of every point at \<open>old_frame\<close>.  Its inner function
  \<open>update\<close> first handles \<open>obj.Points\<close>, then the three colour channels when \<open>obj.red\<close>
  has points, and then visits every own property that is an object.  Reading a property of
  \<open>null\<close> or \<open>undefined\<close>, and calling \<open>forEach\<close> on something that is not an array,
  raise.
\<close>

definition move_point :: "real \<Rightarrow> real \<Rightarrow> json \<Rightarrow> json result" where
  "move_point old_frame new_frame p =
     (case p of
        JNull \<Rightarrow> TypeError
      | JObj fs \<Rightarrow>
          (case map_of fs ''co'' of
             Some (JObj co) \<Rightarrow>
               (case map_of co ''X'' of
                  Some (JNum x) \<Rightarrow>
                    if x = old_frame
                    then Returned (JObj (set_field ''co''
                                           (JObj (set_field ''X'' (JNum new_frame) co)) fs))
                    else Returned p
                | _ \<Rightarrow> Returned p)
           | _ \<Rightarrow> Returned p)
      | _ \<Rightarrow> Returned p)"

fun move_points :: "real \<Rightarrow> real \<Rightarrow> json list \<Rightarrow> json list result" where
  "move_points old_frame new_frame [] = Returned []"
| "move_points old_frame new_frame (p # ps) =
     (case move_point old_frame new_frame p of
        TypeError \<Rightarrow> TypeError
      | Returned p' \<Rightarrow>
          (case move_points old_frame new_frame ps of
             TypeError \<Rightarrow> TypeError
           | Returned ps' \<Rightarrow> Returned (p' # ps')))"

definition points_pass ::
  "real \<Rightarrow> real \<Rightarrow> (string \<times> json) list \<Rightarrow> (string \<times> json) list result" where
  "points_pass old_frame new_frame fs =
     (case map_of fs ''Points'' of
        Some (JArr ps) \<Rightarrow>
          (case move_points old_frame new_frame ps of
             TypeError \<Rightarrow> TypeError
           | Returned ps' \<Rightarrow> Returned (set_field ''Points'' (JArr ps') fs))
      | _ \<Rightarrow> Returned fs)"

definition colour_pass ::
  "real \<Rightarrow> real \<Rightarrow> string \<Rightarrow> (string \<times> json) list \<Rightarrow> (string \<times> json) list result" where
  "colour_pass old_frame new_frame colour fs =
     (case map_of fs colour of
        Some (JObj channel) \<Rightarrow>
          (case map_of channel ''Points'' of
             Some (JArr ps) \<Rightarrow>
               (case move_points old_frame new_frame ps of
                  TypeError \<Rightarrow> TypeError
                | Returned ps' \<Rightarrow>
                    Returned (set_field colour
                                (JObj (set_field ''Points'' (JArr ps') channel)) fs))
           | _ \<Rightarrow> TypeError)
      | _ \<Rightarrow> TypeError)"

definition has_red_points :: "(string \<times> json) list \<Rightarrow> bool" where
  "has_red_points fs =
     (case map_of fs ''red'' of
        Some (JObj channel) \<Rightarrow>
          (case map_of channel ''Points'' of Some pts \<Rightarrow> truthy pts | None \<Rightarrow> False)
      | _ \<Rightarrow> False)"

definition colours_pass ::
  "real \<Rightarrow> real \<Rightarrow> (string \<times> json) list \<Rightarrow> (string \<times> json) list result" where
  "colours_pass old_frame new_frame fs =
     (if has_red_points fs then
        (case colour_pass old_frame new_frame ''red'' fs of
           TypeError \<Rightarrow> TypeError
         | Returned fs1 \<Rightarrow>
             (case colour_pass old_frame new_frame ''green'' fs1 of
                TypeError \<Rightarrow> TypeError
              | Returned fs2 \<Rightarrow> colour_pass old_frame new_frame ''blue'' fs2))
      else Returned fs)"

text \<open>The size by which the recursion of \<open>update\<close> descends.\<close>

fun jsize :: "json \<Rightarrow> nat" where
  "jsize (JArr xs) = Suc (sum_list (map jsize xs))"
| "jsize (JObj fs) = Suc (sum_list (map (\<lambda>kv. jsize (snd kv)) fs))"
| "jsize v = 1"

function update :: "real \<Rightarrow> real \<Rightarrow> json \<Rightarrow> json result"
  and update_list :: "real \<Rightarrow> real \<Rightarrow> json list \<Rightarrow> json list result"
  and update_properties ::
    "real \<Rightarrow> real \<Rightarrow> (string \<times> json) list \<Rightarrow> (string \<times> json) list result"
where
  "update old_frame new_frame (JArr xs) =
     (case update_list old_frame new_frame xs of
        TypeError \<Rightarrow> TypeError
      | Returned ys \<Rightarrow> Returned (JArr ys))"
| "update old_frame new_frame (JObj fs) =
     (case points_pass old_frame new_frame fs of
        TypeError \<Rightarrow> TypeError
      | Returned fs1 \<Rightarrow>
          (case colours_pass old_frame new_frame fs1 of
             TypeError \<Rightarrow> TypeError
           | Returned fs2 \<Rightarrow>
               (case update_properties old_frame new_frame fs2 of
                  TypeError \<Rightarrow> TypeError
                | Returned fs3 \<Rightarrow> Returned (JObj fs3))))"
| "update old_frame new_frame JNull = Returned JNull"
| "update old_frame new_frame (JBool b) = Returned (JBool b)"
| "update old_frame new_frame (JNum x) = Returned (JNum x)"
| "update old_frame new_frame (JStr s) = Returned (JStr s)"
| "update_list old_frame new_frame [] = Returned []"
| "update_list old_frame new_frame (x # xs) =
     (case update old_frame new_frame x of
        TypeError \<Rightarrow> TypeError
      | Returned y \<Rightarrow>
          (case update_list old_frame new_frame xs of
             TypeError \<Rightarrow> TypeError
           | Returned ys \<Rightarrow> Returned (y # ys)))"
| "update_properties old_frame new_frame [] = Returned []"
| "update_properties old_frame new_frame ((k, v) # fs) =
     (case update old_frame new_frame v of
        TypeError \<Rightarrow> TypeError
      | Returned v' \<Rightarrow>
          (case update_properties old_frame new_frame fs of
             TypeError \<Rightarrow> TypeError
           | Returned fs' \<Rightarrow> Returned ((k, v') # fs')))"
  by pat_completeness auto
termination
proof -
  let ?S = "\<lambda>fs :: (string \<times> json) list. sum_list (map (\<lambda>kv. jsize (snd kv)) fs)"
  have pos: "0 < jsize v" for v by (cases v) simp_all
  have setf: "?S (set_field k v' fs) = ?S fs"
    if "map_of fs k = Some v" and "jsize v' = jsize v" for k v v' fs
    using that by (induction fs) (auto split: if_splits)
  have mp: "jsize p' = jsize p" if "move_point a b p = Returned p'" for a b p p'
  proof -
    have co: "jsize (JObj (set_field ''X'' (JNum b) co)) = jsize (JObj co)"
      if "map_of co ''X'' = Some (JNum x)" for co x
      using setf [OF that, of "JNum b"] by simp
    show ?thesis using that
      by (auto simp add: move_point_def setf co
          split: json.splits option.splits if_splits)
  qed
  have mps: "sum_list (map jsize ps') = sum_list (map jsize ps)"
    if "move_points a b ps = Returned ps'" for a b ps ps'
    using that
    by (induction ps arbitrary: ps') (auto split: result.splits dest: mp)
  have pp: "?S fs' = ?S fs" if "points_pass a b fs = Returned fs'" for a b fs fs'
    using that
    by (auto simp add: points_pass_def split: option.splits json.splits result.splits
        intro!: setf dest: mps)
  have cp: "?S fs' = ?S fs" if "colour_pass a b c fs = Returned fs'" for a b c fs fs'
  proof -
    have ch: "jsize (JObj (set_field ''Points'' (JArr ps') channel)) = jsize (JObj channel)"
      if "map_of channel ''Points'' = Some (JArr ps)" "move_points a b ps = Returned ps'"
      for channel ps ps'
      using setf [OF that(1), of "JArr ps'"] mps [OF that(2)] by simp
    show ?thesis using that
      by (auto simp add: colour_pass_def split: option.splits json.splits result.splits
          intro!: setf ch)
  qed
  have cps: "?S fs' = ?S fs" if "colours_pass a b fs = Returned fs'" for a b fs fs'
    using that
    by (auto simp add: colours_pass_def split: if_splits result.splits dest!: cp)
  show ?thesis
  proof (relation "measure (\<lambda>x. case x of
            Inl (a, b, v) \<Rightarrow> 2 * jsize v
          | Inr (Inl (a, b, xs)) \<Rightarrow> 2 * sum_list (map jsize xs) + 1
          | Inr (Inr (a, b, fs)) \<Rightarrow> 2 * sum_list (map (\<lambda>kv. jsize (snd kv)) fs) + 1)",
         goal_cases)
    case 1
    show ?case by simp
  next
    case (2 old_frame new_frame xs)
    show ?case by simp
  next
    case (3 old_frame new_frame fs x2 x2a)
    then show ?case using pp cps by simp
  next
    case (4 old_frame new_frame x xs)
    show ?case by simp
  next
    case (5 old_frame new_frame x xs x2)
    show ?case using pos [of x] by simp
  next
    case (6 old_frame new_frame k v fs)
    show ?case by simp
  next
    case (7 old_frame new_frame k v fs x2)
    show ?case using pos [of v] by simp
  qed
qed


section \<open>Keyframe directive\<close>

text \<open>
  The directive of one keyframe icon.  Its handlers floor and compare the results of their
  arithmetic, so the numbers here are doubles: a field or argument is read as the double
  nearest to it, and every operation is rounded.  \<open>directive_fps\<close> is the variable \<open>fps\<close>,
  computed once when the directive is linked (\<open>linked_fps\<close>); \<open>snapToFPSGridTime\<close> reads
  the frame rate of the scope at the time of the call.
\<close>

record tl_keyframe =
  objType :: string
  objId :: string
  directive_fps :: real
  transactionId :: "string option"
  currentFrame :: int
  pendingFrame :: int

definition linked_fps :: "scope \<Rightarrow> real" where
  "linked_fps sc = fdiv (fl (fps_num (fps (project sc)))) (fl (fps_den (fps (project sc))))"

record bounds =
  bounds_start :: real
  bounds_end :: real

definition getBounds :: "scope \<Rightarrow> keyframed \<Rightarrow> bounds" where
  "getBounds sc object =
     (let start0 = fl (toNumber (object_start object) 0);
          end0 = (case object_end object of
                    Some e \<Rightarrow> fl e
                  | None \<Rightarrow> (case object_duration object of
                               Some d \<Rightarrow> fadd start0 (fl d)
                             | None \<Rightarrow> start0));
          s = snapToFPSGridTime_double (fps (project sc)) start0;
          e = snapToFPSGridTime_double (fps (project sc)) end0
      in if e < s then \<lparr>bounds_start = e, bounds_end = s\<rparr>
         else \<lparr>bounds_start = s, bounds_end = e\<rparr>)"

definition exclusiveMaxSec :: "tl_keyframe \<Rightarrow> bounds \<Rightarrow> real" where
  "exclusiveMaxSec k b = fsub (bounds_end b) (fdiv 1 (fl (directive_fps k)))"

definition snapClampExclusive :: "scope \<Rightarrow> tl_keyframe \<Rightarrow> real \<Rightarrow> bounds \<Rightarrow> real" where
  "snapClampExclusive sc k secs b =
     (let secs1 = (if secs < bounds_start b then bounds_start b else secs);
          maxSec = exclusiveMaxSec k b;
          secs2 = (if secs1 > maxSec then maxSec else secs1);
          secs3 = snapToFPSGridTime_double (fps (project sc)) secs2;
          secs4 = (if secs3 > maxSec then maxSec else secs3)
      in if secs4 < bounds_start b then bounds_start b else secs4)"

definition secondsToPixels :: "scope \<Rightarrow> keyframed \<Rightarrow> real \<Rightarrow> real" where
  "secondsToPixels sc object seconds =
     fmul (fsub seconds (fl (toNumber (object_start object) 0))) (fl (pixelsPerSecond sc))"

definition secondsToFrame :: "tl_keyframe \<Rightarrow> real \<Rightarrow> bounds \<Rightarrow> int" where
  "secondsToFrame k secs b =
     (let startFrame = \<lfloor>fmul (bounds_start b) (fl (directive_fps k))\<rfloor> + 1;
          endFrame = \<lfloor>fmul (bounds_end b) (fl (directive_fps k))\<rfloor>;
          f0 = \<lfloor>fmul secs (fl (directive_fps k))\<rfloor> + 1;
          f1 = (if f0 < startFrame then startFrame else f0)
      in if f1 > endFrame then endFrame else f1)"



text \<open>
  The three handlers of the draggable icon.  \<open>obj\<close> is what \<open>locateObject\<close> found through
  \<open>findElement\<close> (not among the sources), \<open>left\<close> is \<open>ui.position.left\<close>, \<open>point\<close> the
  frame written on the icon and \<open>uuid\<close> the fresh transaction id.  A handler yields the
  scope, the directive, and the \<open>left\<close> it writes back; the last component of \<open>stop\<close> tells
  whether it returned or was left by an exception.
\<close>

definition keyframe_start :: "scope \<Rightarrow> tl_keyframe \<Rightarrow> int \<Rightarrow> string \<Rightarrow> scope \<times> tl_keyframe" where
  "keyframe_start sc k point uuid =
     (let k' = k\<lparr>transactionId := Some uuid, currentFrame := point, pendingFrame := point\<rparr>;
          sc1 = sc\<lparr>dragging := True\<rparr>
      in (if Qt sc1 then call (StartKeyframeDrag (objType k') (objId k') uuid) sc1 else sc1, k'))"

definition proposed_seconds :: "scope \<Rightarrow> tl_keyframe \<Rightarrow> keyframed \<Rightarrow> real \<Rightarrow> real" where
  "proposed_seconds sc k object left =
     (let start0 = fl (toNumber (object_start object) 0);
          b = getBounds sc object;
          secs = fadd (pixelToTime_double (pixelsPerSecond sc) left) start0
      in snapClampExclusive sc k secs b)"





definition dragged_icon :: tl_keyframe where
  "dragged_icon =
     \<lparr>objType = ''clip'', objId = ''C1'', directive_fps = 24, transactionId = Some ''tx'',
      currentFrame = 25, pendingFrame = 25\<rparr>"



section \<open>Evaluating double-precision arithmetic\<close>

text \<open>
  The equations that compute \<open>fl\<close> and the four operations on numerals.  \<open>fl\<close> and the bit
  length are unfolded at numerals only.
\<close>

lemmas double_eval =
  fl_def [of 0] fl_def [of 1] fl_def [of "numeral n"] fl_def [of "numeral m / numeral n"]
  fl_def [of "1 / numeral n"] fl_def [of "- 1"] fl_def [of "- numeral n"]
  fl_def [of "- (numeral m / numeral n)"] fl_def [of "- (1 / numeral n)"]
  binary_exponent_def round_even_def fadd_def fsub_def fmul_def fdiv_def
  compute_floorlog [of 2 0] compute_floorlog [of 2 1] compute_floorlog [of 2 "Suc 0"]
  compute_floorlog [of 2 "numeral n"]
  Let_def
  for m n

section \<open>Properties of the time math\<close>

lemma Math_round_of_int [simp]: "Math_round (of_int k) = k"
  by (simp add: Math_round_def)

lemma snap_idem:
  assumes "fps_num f \<noteq> 0" "fps_den f \<noteq> 0"
  shows "snapToFPSGridTime f (snapToFPSGridTime f t) = snapToFPSGridTime f t"
  using assms by (simp add: snapToFPSGridTime_def)

lemma snap_nonneg:
  assumes "0 < fps_num f" "0 < fps_den f" "0 \<le> t"
  shows "0 \<le> snapToFPSGridTime f t"
proof -
  have "0 \<le> t * fps_num f / fps_den f" using assms by simp
  then have "0 \<le> Math_round (t * fps_num f / fps_den f)"
    by (simp add: Math_round_def)
  then show ?thesis using assms by (simp add: snapToFPSGridTime_def)
qed



lemma snap_near:
  assumes "0 < fps_num f" "0 < fps_den f"
  shows "\<bar>snapToFPSGridTime f x - x\<bar> \<le> (1 / 2) * (fps_den f / fps_num f)"
proof -
  define y where "y = x * fps_num f / fps_den f"
  define r where "r = real_of_int (Math_round y)"
  have "real_of_int \<lfloor>y + 1 / 2\<rfloor> \<le> y + 1 / 2" by (rule of_int_floor_le)
  moreover have "y + 1 / 2 < real_of_int \<lfloor>y + 1 / 2\<rfloor> + 1" by linarith
  ultimately have b: "\<bar>r - y\<bar> \<le> 1 / 2" unfolding r_def Math_round_def by linarith
  have x: "x = y * (fps_den f / fps_num f)" using assms by (simp add: y_def)
  have "snapToFPSGridTime f x - x = (r - y) * (fps_den f / fps_num f)"
  proof -
    have "snapToFPSGridTime f x = r * (fps_den f / fps_num f)"
      by (simp add: snapToFPSGridTime_def r_def y_def)
    moreover have "(r - y) * (fps_den f / fps_num f)
        = r * (fps_den f / fps_num f) - y * (fps_den f / fps_num f)" by (rule left_diff_distrib)
    ultimately show ?thesis using x by simp
  qed
  then have "\<bar>snapToFPSGridTime f x - x\<bar> = \<bar>r - y\<bar> * (fps_den f / fps_num f)"
    using assms by (simp add: abs_mult)
  also have "\<dots> \<le> (1 / 2) * (fps_den f / fps_num f)"
    using b assms by (intro mult_right_mono) simp_all
  finally show ?thesis .
qed

section \<open>Playhead position after \<open>movePlayhead\<close>\<close>

text \<open>
  Claim C8, as amended.  For a frame rate with positive numerator and denominator, the
  playhead position stored by \<open>movePlayhead t\<close> equals its own FPS-grid snap for every
  \<open>t\<close>, negative ones included, and it is non-negative whenever \<open>t\<close> is.
\<close>

theorem movePlayhead_snapped:
  assumes "0 < fps_num (fps (project sc))" and "0 < fps_den (fps (project sc))"
  shows "snapToFPSGridTime (fps (project sc)) (playhead_position (project (movePlayhead sc t)))
           = playhead_position (project (movePlayhead sc t))
         \<and> (0 \<le> t \<longrightarrow> 0 \<le> playhead_position (project (movePlayhead sc t)))"
  using assms by (simp add: movePlayhead_def snap_idem snap_nonneg)

theorem movePlayhead_snapped_witness:
  "snapToFPSGridTime (fps (project demo_scope))
       (playhead_position (project (movePlayhead demo_scope (1 / 10))))
     = playhead_position (project (movePlayhead demo_scope (1 / 10)))
   \<and> playhead_position (project (movePlayhead demo_scope (1 / 10))) = 1 / 12"
proof -
  have n: "0 < fps_num (fps (project demo_scope))"
    and d: "0 < fps_den (fps (project demo_scope))"
    by (simp_all add: demo_scope_def demo_project_def)
  have v: "playhead_position (project (movePlayhead demo_scope (1 / 10))) = 1 / 12"
    by (simp add: movePlayhead_def demo_scope_def demo_project_def snapToFPSGridTime_def
        Math_round_def)
  from movePlayhead_snapped [OF n d, of "1 / 10"] v show ?thesis by blast
qed

text \<open>
  The claim as written also promises a non-negative position for negative input; the
  stored value for \<open>t = -1\<close> at 24 fps is \<open>-1\<close>.
\<close>

theorem movePlayhead_negative_counterexample:
  "playhead_position (project (movePlayhead demo_scope (- 1))) = - 1
   \<and> \<not> 0 \<le> playhead_position (project (movePlayhead demo_scope (- 1)))"
  by (simp add: movePlayhead_def demo_scope_def demo_project_def snapToFPSGridTime_def
      Math_round_def)

section \<open>Resampling the waveform\<close>

lemma source_pos_range:
  assumes "vs \<noteq> []" and "1 \<le> m" and "i < m"
  shows "0 \<le> source_pos (length vs) m i" and "source_pos (length vs) m i \<le> real (length vs - 1)"
proof -
  show "0 \<le> source_pos (length vs) m i" by (simp add: source_pos_def)
  show "source_pos (length vs) m i \<le> real (length vs - 1)"
  proof (cases "m = 1")
    case True then show ?thesis by (simp add: source_pos_def)
  next
    case False
    then have m1: "0 < real (m - 1)" using assms by simp
    have "real i \<le> real (m - 1)" using assms by simp
    then have "real i * real (length vs - 1) \<le> real (m - 1) * real (length vs - 1)"
      by (intro mult_right_mono) simp_all
    then show ?thesis using m1 False by (simp add: source_pos_def pos_divide_le_eq mult.commute)
  qed
qed

lemma source_index_in_range:
  assumes "vs \<noteq> []" and "1 \<le> m" and "i < m"
  shows "nat \<lfloor>source_pos (length vs) m i\<rfloor> < length vs"
proof -
  have "\<lfloor>source_pos (length vs) m i\<rfloor> \<le> int (length vs - 1)"
    using source_pos_range(2) [OF assms] by (simp add: floor_le_iff)
  moreover have "0 < length vs" using assms by simp
  ultimately show ?thesis by linarith
qed

lemma resample_at_interpolated:
  assumes "vs \<noteq> []" and "1 \<le> m" and "i < m"
  shows "resample_at (map Some vs) (int m) (int i) = interpolated vs m i"
proof -
  let ?p = "source_pos (length vs) m i"
  have n: "0 < length vs" using assms by simp
  have A: "nat \<lfloor>?p\<rfloor> < length vs" by (rule source_index_in_range [OF assms])
  have fl0: "0 \<le> \<lfloor>?p\<rfloor>" using source_pos_range(1) [OF assms] by simp
  have sp: "(if int m = 1 then 0 else real_of_int (int i) / real_of_int (int m - 1))
              * real_of_int (int (length (map Some vs)) - 1) = ?p"
  proof -
    have "real (length vs - 1) = real (length vs) - 1" using n by (cases "length vs") simp_all
    moreover have "real (m - 1) = real m - 1" using assms by (cases m) simp_all
    ultimately show ?thesis using assms by (simp add: source_pos_def)
  qed
  have e0: "element (map Some vs) \<lfloor>?p\<rfloor> = Some (vs ! nat \<lfloor>?p\<rfloor>)"
    using fl0 A by (simp add: element_def)
  have i1: "min (int (length vs) - 1) (\<lfloor>?p\<rfloor> + 1) = int (min (length vs - 1) (nat \<lfloor>?p\<rfloor> + 1))"
  proof -
    have a: "int (length vs - 1) = int (length vs) - 1" using n by (cases "length vs") simp_all
    have b: "int (nat \<lfloor>?p\<rfloor> + 1) = \<lfloor>?p\<rfloor> + 1" using fl0 by simp
    show ?thesis unfolding of_nat_min a b ..
  qed
  have e1: "element (map Some vs) (min (int (length vs) - 1) (\<lfloor>?p\<rfloor> + 1))
              = Some (vs ! min (length vs - 1) (nat \<lfloor>?p\<rfloor> + 1))"
    unfolding i1 using n A by (auto simp add: element_def min_def)
  show ?thesis
    unfolding resample_at_def interpolated_def Let_def sp using e0 e1 by (simp add: frac_def)
qed

lemma interpolated_same_length:
  assumes "i < length vs"
  shows "interpolated vs (length vs) i = vs ! i"
proof (cases "length vs = 1")
  case True
  then show ?thesis using assms by (simp add: interpolated_def source_pos_def)
next
  case False
  then have "source_pos (length vs) (length vs) i = real i"
    using assms by (simp add: source_pos_def)
  then show ?thesis by (simp add: interpolated_def)
qed

lemma interpolated_between:
  assumes "vs \<noteq> []" and "1 \<le> m" and "i < m"
  shows "\<exists>a b. a < length vs \<and> b < length vs \<and>
           min (vs ! a) (vs ! b) \<le> interpolated vs m i \<and> interpolated vs m i \<le> max (vs ! a) (vs ! b)"
proof -
  let ?p = "source_pos (length vs) m i"
  let ?a = "nat \<lfloor>?p\<rfloor>" let ?b = "min (length vs - 1) (?a + 1)"
  have A: "?a < length vs" by (rule source_index_in_range [OF assms])
  have B: "?b < length vs" using assms by (auto simp add: min_def)
  have f0: "0 \<le> frac ?p" and f1: "frac ?p \<le> 1" using frac_lt_1 [of ?p] by simp_all
  have eq: "interpolated vs m i = vs ! ?a + (vs ! ?b - vs ! ?a) * frac ?p"
    by (simp add: interpolated_def Let_def)
  have "min (vs ! ?a) (vs ! ?b) \<le> interpolated vs m i \<and> interpolated vs m i \<le> max (vs ! ?a) (vs ! ?b)"
  proof (cases "vs ! ?a \<le> vs ! ?b")
    case True
    then have "0 \<le> (vs ! ?b - vs ! ?a) * frac ?p" using f0 by simp
    moreover have "(vs ! ?b - vs ! ?a) * frac ?p \<le> (vs ! ?b - vs ! ?a) * 1"
      using True f1 by (intro mult_left_mono) simp_all
    ultimately show ?thesis using True unfolding eq by (simp add: min_def max_def)
  next
    case False
    then have "(vs ! ?b - vs ! ?a) * frac ?p \<le> 0" using f0 by (simp add: mult_le_0_iff)
    moreover have "(vs ! ?a - vs ! ?b) * frac ?p \<le> (vs ! ?a - vs ! ?b) * 1"
      using False f1 by (intro mult_left_mono) simp_all
    ultimately show ?thesis using False unfolding eq by (simp add: min_def max_def algebra_simps)
  qed
  with A B show ?thesis by blast
qed

lemma resampleWaveform_general:
  assumes "vs \<noteq> []" and "0 < originalDuration" and "0 < newDuration"
  shows "\<exists>res. resampleWaveform (Some (map Some vs)) originalDuration newDuration = Some res
           \<and> length res = resampled_length (length vs) originalDuration newDuration
           \<and> (\<forall>i < length res. res ! i = Some (interpolated vs (length res) i))"
proof (cases "length vs = 1")
  case True
  then have "interpolated vs 1 0 = vs ! 0" using interpolated_same_length [of 0 vs] by simp
  then show ?thesis using True assms
    by (simp add: resampleWaveform_def resampled_length_def)
next
  case False
  let ?m = "max 1 (Math_round (fmul (real (length vs))
                                 (fdiv (fl newDuration) (fl originalDuration))))"
  have m1: "1 \<le> ?m" by simp
  show ?thesis
  proof (cases "?m = int (length vs)")
    case True
    then have "resampleWaveform (Some (map Some vs)) originalDuration newDuration = Some (map Some vs)"
      using False assms by (simp add: resampleWaveform_def Let_def)
    moreover have "resampled_length (length vs) originalDuration newDuration = length vs"
      using False True by (simp add: resampled_length_def)
    ultimately show ?thesis by (simp add: interpolated_same_length)
  next
    case neq: False
    have r: "resampleWaveform (Some (map Some vs)) originalDuration newDuration
          = Some (map (\<lambda>i. Some (resample_at (map Some vs) ?m (int i))) [0..<nat ?m])"
      using False neq assms by (simp add: resampleWaveform_def Let_def)
    have l: "resampled_length (length vs) originalDuration newDuration = nat ?m"
      using False by (simp add: resampled_length_def)
    have "resample_at (map Some vs) ?m (int i) = interpolated vs (nat ?m) i" if "i < nat ?m" for i
    proof -
      have "int (nat ?m) = ?m" using m1 by linarith
      moreover have "1 \<le> nat ?m" using m1 by linarith
      ultimately show ?thesis
        using resample_at_interpolated [OF assms(1), of "nat ?m" i] that by metis
    qed
    then show ?thesis unfolding r l by simp
  qed
qed

text \<open>
  The boundary scenario for an arbitrary waveform of 800 finite samples retimed from 4 s
  to 2 s: 400 samples, sample \<open>i\<close> read at source position \<open>i * 799 / 399\<close>.
\<close>

lemma resampleWaveform_800_to_400:
  assumes "length vs = 800"
  shows "\<exists>res. resampleWaveform (Some (map Some vs)) 4 2 = Some res \<and> length res = 400
           \<and> (\<forall>i < 400. res ! i =
                 Some (vs ! nat \<lfloor>real i * 799 / 399\<rfloor>
                       + (vs ! min 799 (nat \<lfloor>real i * 799 / 399\<rfloor> + 1)
                          - vs ! nat \<lfloor>real i * 799 / 399\<rfloor>) * frac (real i * 799 / 399)))"
proof -
  have ne: "vs \<noteq> []" using assms by auto
  have "resampled_length 800 4 2 = 400"
    by (simp add: resampled_length_def Math_round_def double_eval)
  then have len: "resampled_length (length vs) 4 2 = 400" using assms by simp
  from resampleWaveform_general [OF ne, of 4 2] len obtain res where
    r: "resampleWaveform (Some (map Some vs)) 4 2 = Some res" and l: "length res = 400"
    and v: "\<forall>i < length res. res ! i = Some (interpolated vs (length res) i)"
    by auto
  have "interpolated vs 400 i =
          vs ! nat \<lfloor>real i * 799 / 399\<rfloor>
            + (vs ! min 799 (nat \<lfloor>real i * 799 / 399\<rfloor> + 1)
               - vs ! nat \<lfloor>real i * 799 / 399\<rfloor>) * frac (real i * 799 / 399)" for i
    using assms by (simp add: interpolated_def source_pos_def Let_def)
  with r l v show ?thesis by simp
qed

text \<open>
  The length is rounded from the product as the doubles give it: ten samples retimed from
  0.4 s to 0.3 s become seven, because \<open>10 * (0.3 / 0.4)\<close> is the double just below 7.5,
  where the product of the real numbers is 7.5 and rounds to eight.
\<close>

lemma resampled_length_below_half:
  "resampled_length 10 (2 / 5) (3 / 10) = 7"
  "Math_round (10 * ((3 / 10) / (2 / 5)) :: real) = 8"
  by (simp_all add: resampled_length_def Math_round_def double_eval)




section \<open>Releasing a resize handle\<close>


lemma isSingleImageClip_preview [simp]:
  "isSingleImageClip (c\<lparr>keyframe_preview := kp\<rparr>) = isSingleImageClip c"
  by (simp add: isSingleImageClip_def)

lemma getRetimedDurationSeconds_preview [simp]:
  "getRetimedDurationSeconds p (c\<lparr>keyframe_preview := kp\<rparr>) = getRetimedDurationSeconds p c"
  by (simp add: getRetimedDurationSeconds_def hasTimeKeyframes_def getTimePoints_def Let_def)

lemma getReaderDurationSeconds_preview [simp]:
  "getReaderDurationSeconds (c\<lparr>keyframe_preview := kp\<rparr>) = getReaderDurationSeconds c"
  by (simp add: getReaderDurationSeconds_def Let_def)



lemma the_clip_resizeTimeline [simp]: "the_clip (resizeTimeline sc) d = the_clip sc d"
  by (simp add: resizeTimeline_def the_clip_def call_def Let_def)

lemma the_clip_call [simp]: "the_clip (call h sc) d = the_clip sc d"
  by (simp add: the_clip_def call_def)


lemma stopKeyframePreview_other [simp]:
  "enable_timing (stopKeyframePreview d sc) = enable_timing sc"
  "fps (project (stopKeyframePreview d sc)) = fps (project sc)"
  "pixelsPerSecond (stopKeyframePreview d sc) = pixelsPerSecond sc"
  "length (clips (project (stopKeyframePreview d sc))) = length (clips (project sc))"
  by (simp_all add: stopKeyframePreview_def set_clip_def)

lemma hideSnapline_other [simp]:
  "enable_timing (hideSnapline sc) = enable_timing sc"
  "project (hideSnapline sc) = project sc"
  "the_clip (hideSnapline sc) d = the_clip sc d"
  by (simp_all add: hideSnapline_def the_clip_def)



lemma edges_right:
  assumes "getMaxClipEndSeconds sc c = Some m" "start c \<le> m"
  shows "resized_edges sc c (Some Right) dt =
     (position c, start c, min m (max (start c) (end' c - dt)))"
  using assms by (auto simp add: resized_edges_def Let_def max_def min_def)




lemma length_clips_set_clip [simp]:
  "length (clips (project (set_clip g d sc))) = length (clips (project sc))"
  by (simp add: set_clip_def)

lemma length_clips_resizeTimeline [simp]:
  "length (clips (project (resizeTimeline sc))) = length (clips (project sc))"
  by (simp add: resizeTimeline_def call_def Let_def)

lemma length_clips_call [simp]:
  "length (clips (project (call h sc))) = length (clips (project sc))"
  by (simp add: call_def)

lemma enable_timing_hideSnapline [simp]: "enable_timing (hideSnapline sc) = enable_timing sc"
  by (simp add: hideSnapline_def)





section \<open>Left handle\<close>




text \<open>
  The start stays left of the end only as far as the end is on the frame grid: with the end
  at 4.99 s and the handle pushed to the right past it, the start is stored as the snap of
  4.99 s, which is 5 s at 24 fps.
\<close>

lemma left_handle_off_grid_end:
  "(let sc = demo_scope\<lparr>project := demo_project\<lparr>clips := [plain_clip ''B'' 1 2 1 (499 / 100)]\<rparr>\<rparr>;
        c' = the_clip (fst (resize_stop sc (idle_directive 0 Left) ((2 + 5) * (100 / 16))))
               (idle_directive 0 Left)
    in (position c', start c', end' c') = (2, 5, 499 / 100))"
  by (simp add: demo_scope_def demo_project_def plain_clip_def
      idle_directive_def resize_stop_def stopKeyframePreview_def set_clip_def the_clip_def
      resized_edges_def getMaxClipEndSeconds_def getMaxDurationSeconds_def
      getRetimedDurationSeconds_def hasTimeKeyframes_def getTimePoints_def
      isResizeConstrained_def isSingleImageClip_def toLowerCase_def or_empty_def
      getReaderDurationSeconds_def positive_def hideSnapline_def resizeTimeline_def
      snapToFPSGridTime_def Math_round_def Let_def)

section \<open>Right handle\<close>





text \<open>
  The bound is stated for a limit on the frame grid.  With \<open>reader.duration = 6.03\<close> the
  limit is 7.03 s and the end stored at 24 fps is its snap, \<open>169 / 24\<close> s.
\<close>

lemma right_handle_off_grid_limit:
  "(let sc = demo_scope\<lparr>project := demo_project\<lparr>clips :=
              [(plain_clip ''B'' 1 0 1 4)\<lparr>reader := Some ((six_second_reader None)
                 \<lparr>reader_duration := Some (603 / 100)\<rparr>)\<rparr>]\<rparr>\<rparr>;
        c' = the_clip (fst (resize_stop sc (idle_directive 0 Right)
                 ((0 + (4 - 1) + 10) * (100 / 16)))) (idle_directive 0 Right)
    in end' c' = 169 / 24)"
  by (simp add: six_second_reader_def demo_scope_def demo_project_def
      plain_clip_def idle_directive_def resize_stop_def stopKeyframePreview_def set_clip_def
      the_clip_def resized_edges_def getMaxClipEndSeconds_def getMaxDurationSeconds_def
      getRetimedDurationSeconds_def hasTimeKeyframes_def getTimePoints_def
      isResizeConstrained_def isSingleImageClip_def toLowerCase_def lower_char_def or_empty_def
      getReaderDurationSeconds_def positive_def hideSnapline_def resizeTimeline_def
      snapToFPSGridTime_def Math_round_def Let_def)

section \<open>The overlap search as a first match\<close>

lemma search_clips_round:
  assumes "layer original = layer c"
  shows "search_clips original (c # cs) None =
     (case proposal original c of
        None \<Rightarrow> search_clips original cs None
      | Some t \<Rightarrow> if 1 / 2 \<le> ts_end t then Some t else search_clips original cs None)"
  using assms by (simp add: proposal_def left_edge_def right_edge_def Let_def)

lemma search_clips_find:
  "search_clips original cs None =
     (case find (accepted original) cs of None \<Rightarrow> None | Some c \<Rightarrow> proposal original c)"
proof (induction cs)
  case Nil
  then show ?case by simp
next
  case (Cons c cs)
  show ?case
  proof (cases "layer original = layer c")
    case False
    then show ?thesis using Cons by (auto simp add: accepted_def Let_def)
  next
    case True
    show ?thesis
    proof (cases "proposal original c")
      case None
      then show ?thesis using True Cons
        by (simp add: search_clips_round [OF True] accepted_def del: search_clips.simps)
    next
      case (Some t)
      then show ?thesis using True Cons
        by (simp add: search_clips_round [OF True] accepted_def del: search_clips.simps)
    qed
  qed
qed

lemma search_transitions_coincides:
  "search_transitions t trs = (if \<exists>tr \<in> set trs. coincides tr t then None else Some t)"
  by (induction trs)
     (auto simp add: coincides_def left_edge_def right_edge_def TOLERANCE_def Let_def)

lemma getMissingTransitions_find:
  "getMissingTransitions p original =
     (case find (accepted original) (clips p) of
        None \<Rightarrow> None
      | Some c \<Rightarrow> (case proposal original c of
                     None \<Rightarrow> None
                   | Some t \<Rightarrow> if \<exists>tr \<in> set (effects p). coincides tr t then None else Some t))"
  by (simp add: getMissingTransitions_def search_clips_find search_transitions_coincides
      split: option.splits)

lemma find_first:
  assumes "xs = before @ x # after" "\<forall>c \<in> set before. \<not> P c" "P x"
  shows "find P xs = Some x"
  using assms by (induction before arbitrary: xs) auto

lemma reported_append: "reported (xs @ ys) = reported xs @ reported ys"
  by (induction xs rule: reported.induct) simp_all

lemma updateRecentItem_clip:
  fixes sc :: scope and i :: nat and left :: real and track :: "int option" and n :: nat
    and tid :: "string option"
  assumes "i < length (clips (project sc))"
  defines "sc' \<equiv> updateRecentItem sc (Clip_ref i) left track n tid"
  shows "clips (project sc') = (clips (project sc))
            [i := (clips (project sc) ! i)\<lparr>
               position := snapToFPSGridTime_double (fps (project sc))
                             (pixelToTime_double (pixelsPerSecond sc) left),
               layer := (case track of None \<Rightarrow> 0 | Some number \<Rightarrow> number)\<rparr>]"
    and "effects (project sc') = effects (project sc)"
    and "reported (host sc') = reported (host sc) @
           (if Qt sc \<and> n = 1
            then (case getMissingTransitions (project sc') (clips (project sc') ! i) of
                    Some t \<Rightarrow> [t] | None \<Rightarrow> [])
            else [])"
proof -
  let ?c = "(clips (project sc) ! i)\<lparr>
               position := snapToFPSGridTime_double (fps (project sc))
                             (pixelToTime_double (pixelsPerSecond sc) left),
               layer := (case track of None \<Rightarrow> 0 | Some number \<Rightarrow> number)\<rparr>"
  let ?sc1 = "sc\<lparr>project := (project sc)\<lparr>clips := (clips (project sc))[i := ?c]\<rparr>\<rparr>"
  let ?sc3 = "hideSnapline (resizeTimeline (call (Update_clip_data (Clip_json ?c) True True False tid) ?sc1))"
  have p3: "clips (project ?sc3) = (clips (project sc))[i := ?c]"
    "effects (project ?sc3) = effects (project sc)"
    by (simp_all add: hideSnapline_def resizeTimeline_def call_def Let_def)
  have q3: "Qt ?sc3 = Qt sc"
    by (simp add: hideSnapline_def resizeTimeline_def call_def Let_def)
  have h3: "reported (host ?sc3) = reported (host sc)"
    by (simp add: hideSnapline_def resizeTimeline_def call_def Let_def reported_append)
  have nth: "clips (project ?sc1) ! i = ?c" using assms(1) by simp
  have sc': "sc' = (case getMissingTransitions (project ?sc3) (clips (project ?sc3) ! i) of
                   Some details \<Rightarrow>
                     if Qt ?sc3 \<and> n = 1 then call (Add_missing_transition details) ?sc3
                     else ?sc3
                 | None \<Rightarrow> ?sc3)"
    unfolding sc'_def updateRecentItem_def Let_def item_ref.case nth ..
  have pr: "project sc' = project ?sc3"
    unfolding sc' by (simp add: call_def split: option.splits)
  show "clips (project sc') = (clips (project sc))[i := ?c]"
    and "effects (project sc') = effects (project sc)"
    unfolding pr by (rule p3)+
  show "reported (host sc') = reported (host sc) @
           (if Qt sc \<and> n = 1
            then (case getMissingTransitions (project sc') (clips (project sc') ! i) of
                    Some t \<Rightarrow> [t] | None \<Rightarrow> [])
            else [])"
    unfolding pr unfolding sc' using h3 q3
    by (simp add: call_def reported_append split: option.splits)
qed

text \<open>A released resize handle sends the host no proposal, whatever the clip and the pixel.\<close>

lemma host_set_clip [simp]: "host (set_clip g d sc) = host sc"
  by (simp add: set_clip_def)

lemma host_stopKeyframePreview [simp]: "host (stopKeyframePreview d sc) = host sc"
  by (simp add: stopKeyframePreview_def)

lemma host_hideSnapline [simp]: "host (hideSnapline sc) = host sc"
  by (simp add: hideSnapline_def)

lemma reported_resizeTimeline [simp]:
  "reported (host (resizeTimeline sc)) = reported (host sc)"
  by (simp add: resizeTimeline_def call_def Let_def reported_append)

lemma reported_call:
  "reported (host (call c sc)) = reported (host sc) @ reported [c]"
  by (simp add: call_def reported_append)

lemma resize_stop_reports_nothing:
  "reported (host (fst (resize_stop sc d px))) = reported (host sc)"
  by (simp add: resize_stop_def Let_def reported_call
      split: prod.splits option.splits drag_loc.splits)

section \<open>Missing-transition proposals\<close>

text \<open>
  Claim C1, as amended.  Edges and lengths are the doubles the code computes.  For the
  first clip \<open>other\<close> in array order whose proposal is accepted (same layer, at least half
  a second): when the left edge of \<open>original\<close> lies strictly inside \<open>other\<close>,
  \<open>getMissingTransitions\<close> returns the proposal at the left edge of \<open>original\<close> that ends
  at the right edge of \<open>other\<close>; when only its right edge does, the proposal at the left
  edge of \<open>other\<close> that ends at the right edge of \<open>original\<close>; in both cases nothing is
  returned when an edge of the proposal is less than 0.01 s from the same edge of a
  transition on that layer.  Whatever is returned is at least half a second long,
  coincides with no such transition and comes from a clip on the layer.  The proposal is
  sent to the host when the drag of exactly one item stops and the host is attached: by
  \<open>updateRecentItemJSON\<close>, and by the stop of an in-page drag as the specification
  describes it.  A released resize handle sends the host no proposal.
\<close>

theorem missing_transition_proposal:
  fixes p :: project and original :: clip and other :: clip and sc :: scope
    and before after :: "clip list" and i n :: nat and left :: real and track :: "int option"
    and tid :: "string option" and t :: transition_size
  defines "left_proposal \<equiv> \<lparr>ts_position = left_edge original, ts_layer = layer original,
                               ts_start = 0,
                               ts_end = fsub (right_edge other) (left_edge original)\<rparr>"
  defines "right_proposal \<equiv> \<lparr>ts_position = left_edge other, ts_layer = layer original,
                                ts_start = 0,
                                ts_end = fsub (right_edge original) (left_edge other)\<rparr>"
  defines "sc' \<equiv> updateRecentItem sc (Clip_ref i) left track n tid"
  defines "sc'' \<equiv> updateDraggables sc (Clip_ref i) left track n tid"
  shows "(clips p = before @ other # after \<and> (\<forall>c \<in> set before. \<not> accepted original c)
            \<and> layer other = layer original
            \<and> left_edge other < left_edge original \<and> left_edge original < right_edge other
            \<and> 1 / 2 \<le> ts_end left_proposal
          \<longrightarrow> getMissingTransitions p original =
                (if \<exists>tr \<in> set (effects p). coincides tr left_proposal then None
                 else Some left_proposal))
       \<and> (clips p = before @ other # after \<and> (\<forall>c \<in> set before. \<not> accepted original c)
            \<and> layer other = layer original
            \<and> \<not> (left_edge other < left_edge original \<and> left_edge original < right_edge other)
            \<and> left_edge other < right_edge original \<and> right_edge original < right_edge other
            \<and> 1 / 2 \<le> ts_end right_proposal
          \<longrightarrow> getMissingTransitions p original =
                (if \<exists>tr \<in> set (effects p). coincides tr right_proposal then None
                 else Some right_proposal))
       \<and> (getMissingTransitions p original = Some t
          \<longrightarrow> 1 / 2 \<le> ts_end t \<and> (\<forall>tr \<in> set (effects p). \<not> coincides tr t)
              \<and> (\<exists>c \<in> set (clips p). layer c = layer original \<and> proposal original c = Some t))
       \<and> (i < length (clips (project sc))
          \<longrightarrow> reported (host sc') = reported (host sc) @
                (if Qt sc \<and> n = 1
                 then (case getMissingTransitions (project sc') (clips (project sc') ! i) of
                         Some t \<Rightarrow> [t] | None \<Rightarrow> [])
                 else [])
            \<and> reported (host sc'') = reported (host sc) @
                (if Qt sc \<and> n = 1
                 then (case getMissingTransitions (project sc'') (clips (project sc'') ! i) of
                         Some t \<Rightarrow> [t] | None \<Rightarrow> [])
                 else []))
       \<and> (\<forall>d px. reported (host (fst (resize_stop sc d px))) = reported (host sc))"
proof -
  have A: "getMissingTransitions p original =
                (if \<exists>tr \<in> set (effects p). coincides tr left_proposal then None
                 else Some left_proposal)"
    if a: "clips p = before @ other # after \<and> (\<forall>c \<in> set before. \<not> accepted original c)
            \<and> layer other = layer original
            \<and> left_edge other < left_edge original \<and> left_edge original < right_edge other
            \<and> 1 / 2 \<le> ts_end left_proposal"
  proof -
  from a have pr: "proposal original other = Some left_proposal"
    by (simp add: proposal_def left_proposal_def)
  with a have "accepted original other" by (simp add: accepted_def)
  with a have "find (accepted original) (clips p) = Some other"
    by (intro find_first [of _ before other after]) simp_all
  then show ?thesis
    by (simp add: getMissingTransitions_find pr)
  qed
  have B: "getMissingTransitions p original =
                (if \<exists>tr \<in> set (effects p). coincides tr right_proposal then None
                 else Some right_proposal)"
    if a: "clips p = before @ other # after \<and> (\<forall>c \<in> set before. \<not> accepted original c)
            \<and> layer other = layer original
            \<and> \<not> (left_edge other < left_edge original \<and> left_edge original < right_edge other)
            \<and> left_edge other < right_edge original \<and> right_edge original < right_edge other
            \<and> 1 / 2 \<le> ts_end right_proposal"
  proof -
  from a have pr: "proposal original other = Some right_proposal"
    by (auto simp add: proposal_def right_proposal_def)
  with a have "accepted original other" by (simp add: accepted_def)
  with a have "find (accepted original) (clips p) = Some other"
    by (intro find_first [of _ before other after]) simp_all
  then show ?thesis
    by (simp add: getMissingTransitions_find pr)
  qed
  have C: "1 / 2 \<le> ts_end t \<and> (\<forall>tr \<in> set (effects p). \<not> coincides tr t)
              \<and> (\<exists>c \<in> set (clips p). layer c = layer original \<and> proposal original c = Some t)"
    if g: "getMissingTransitions p original = Some t"
  proof -
  from g obtain c where f: "find (accepted original) (clips p) = Some c"
    and pc: "proposal original c = Some t" and nc: "\<not> (\<exists>tr \<in> set (effects p). coincides tr t)"
    by (auto simp add: getMissingTransitions_find split: option.splits if_splits)
  from f have acc: "accepted original c" and mem: "c \<in> set (clips p)"
    by (auto simp add: find_Some_iff)
  from acc pc have "1 / 2 \<le> ts_end t" and "layer c = layer original"
    by (simp_all add: accepted_def)
  with nc mem pc show ?thesis by blast
  qed
  have E: "reported (host sc') = reported (host sc) @
                (if Qt sc \<and> n = 1
                 then (case getMissingTransitions (project sc') (clips (project sc') ! i) of
                         Some t \<Rightarrow> [t] | None \<Rightarrow> [])
                 else [])
            \<and> reported (host sc'') = reported (host sc) @
                (if Qt sc \<and> n = 1
                 then (case getMissingTransitions (project sc'') (clips (project sc'') ! i) of
                         Some t \<Rightarrow> [t] | None \<Rightarrow> [])
                 else [])"
    if "i < length (clips (project sc))"
  proof -
    have "sc'' = sc'" by (simp add: sc''_def sc'_def updateDraggables_def)
    moreover have "reported (host sc') = reported (host sc) @
                (if Qt sc \<and> n = 1
                 then (case getMissingTransitions (project sc') (clips (project sc') ! i) of
                         Some t \<Rightarrow> [t] | None \<Rightarrow> [])
                 else [])"
      unfolding sc'_def using that by (rule updateRecentItem_clip(3))
    ultimately show ?thesis by simp
  qed
  have F: "\<forall>d px. reported (host (fst (resize_stop sc d px))) = reported (host sc)"
    by (simp add: resize_stop_reports_nothing)
  show ?thesis using A B C E F by blast
qed

text \<open>
  Scenario 4: clip A from 0 s to 5 s, clip B dropped at the pixel of 4 s on the same layer.
\<close>

theorem missing_transition_proposal_witness:
  "reported (host (updateRecentItem (drop_scenario 20) (Clip_ref 1) (4 * (100 / 16)) (Some 1) 1
      (Some ''tx''))) = [\<lparr>ts_position = 4, ts_layer = 1, ts_start = 0, ts_end = 1\<rparr>]"
proof -
  let ?sc = "drop_scenario 20"
  let ?sc' = "updateRecentItem ?sc (Clip_ref 1) (4 * (100 / 16)) (Some 1) 1 (Some ''tx'')"
  let ?A = "plain_clip ''A'' 1 0 0 5" and ?B = "plain_clip ''B'' 1 4 0 6"
  have i: "1 < length (clips (project ?sc))"
    by (simp add: drop_scenario_def demo_scope_def demo_project_def)
  have q: "Qt ?sc" and h: "host ?sc = []" by (simp_all add: drop_scenario_def demo_scope_def)
  have pos: "snapToFPSGridTime_double \<lparr>fps_num = 24, fps_den = 1\<rparr>
               (pixelToTime_double (25 / 4) 25) = 4"
    by (simp add: snapToFPSGridTime_double_def pixelToTime_double_def Math_round_def
        double_eval)
  have cl: "clips (project ?sc') = [] @ ?A # [?B]"
    unfolding updateRecentItem_clip(1) [OF i]
    by (simp add: drop_scenario_def demo_scope_def demo_project_def plain_clip_def pos)
  have ef: "effects (project ?sc') = []"
    unfolding updateRecentItem_clip(2) [OF i]
    by (simp add: drop_scenario_def demo_scope_def demo_project_def)
  have B: "clips (project ?sc') ! 1 = ?B" unfolding cl by simp
  have edges: "left_edge ?A = 0" "right_edge ?A = 5" "left_edge ?B = 4" "right_edge ?B = 10"
    by (simp_all add: left_edge_def right_edge_def plain_clip_def double_eval)
  have len: "fsub 5 4 = 1" by (simp add: double_eval)
  note T = missing_transition_proposal [where p = "project ?sc'" and original = ?B
      and other = ?A and before = "[]" and after = "[?B]" and sc = ?sc and i = 1 and n = 1
      and left = "4 * (100 / 16)" and track = "Some 1" and tid = "Some ''tx''"]
  have lay: "layer ?A = layer ?B" "layer ?B = 1" by (simp_all add: plain_clip_def)
  have pre: "clips (project ?sc') = [] @ ?A # [?B] \<and> (\<forall>c \<in> set []. \<not> accepted ?B c)
            \<and> layer ?A = layer ?B
            \<and> left_edge ?A < left_edge ?B \<and> left_edge ?B < right_edge ?A
            \<and> 1 / 2 \<le> ts_end \<lparr>ts_position = left_edge ?B, ts_layer = layer ?B,
                               ts_start = 0, ts_end = fsub (right_edge ?A) (left_edge ?B)\<rparr>"
    using cl lay by (simp add: edges len)
  from T [THEN conjunct1, rule_format, OF pre]
  have g: "getMissingTransitions (project ?sc') ?B =
      Some \<lparr>ts_position = 4, ts_layer = 1, ts_start = 0, ts_end = 1\<rparr>"
    unfolding ef by (simp add: edges len lay)
  from T [THEN conjunct2, THEN conjunct2, THEN conjunct2, THEN conjunct1, rule_format, OF i,
      THEN conjunct1]
  have "reported (host ?sc') = reported (host ?sc) @
                (if Qt ?sc \<and> (1::nat) = 1
                 then (case getMissingTransitions (project ?sc') (clips (project ?sc') ! 1) of
                         Some t \<Rightarrow> [t] | None \<Rightarrow> [])
                 else [])" .
  then show ?thesis unfolding B g using q h by simp
qed

text \<open>
  Releasing a resize handle is not followed by the search.  Here the trim moves the left
  edge of B to 4 s, strictly inside A, the proposal for the result exists, and the handler
  has sent none.
\<close>

theorem resize_reports_nothing_counterexample:
  "(let sc' = fst (resize_stop resize_overlap_scenario (idle_directive 1 Left) ((6 - 2) * (100 / 16)));
        b = clips (project sc') ! 1;
        a = clips (project sc') ! 0
    in Qt sc' \<and> layer a = layer b \<and> left_edge a < left_edge b \<and> left_edge b < right_edge a
       \<and> getMissingTransitions (project sc') b
            = Some \<lparr>ts_position = 4, ts_layer = 1, ts_start = 0, ts_end = 1\<rparr>
       \<and> reported (host sc') = [])"
proof -
  let ?A = "plain_clip ''A'' 1 0 0 5" and ?B = "plain_clip ''B'' 1 4 0 8"
  let ?sc' = "fst (resize_stop resize_overlap_scenario (idle_directive 1 Left)
                 ((6 - 2) * (100 / 16)))"
  have cl: "clips (project ?sc') = [?A, ?B]" and q: "Qt ?sc'"
    and ef: "effects (project ?sc') = []"
    by (simp_all add: resize_overlap_scenario_def demo_scope_def demo_project_def plain_clip_def
      idle_directive_def resize_stop_def stopKeyframePreview_def set_clip_def the_clip_def
      resized_edges_def getMaxClipEndSeconds_def getMaxDurationSeconds_def
      getRetimedDurationSeconds_def hasTimeKeyframes_def getTimePoints_def
      isResizeConstrained_def isSingleImageClip_def toLowerCase_def or_empty_def
      getReaderDurationSeconds_def positive_def hideSnapline_def resizeTimeline_def
      snapToFPSGridTime_def Math_round_def Let_def call_def)
  have r: "reported (host ?sc') = []"
    unfolding resize_stop_reports_nothing
    by (simp add: resize_overlap_scenario_def demo_scope_def)
  have edges: "left_edge ?A = 0" "right_edge ?A = 5" "left_edge ?B = 4" "right_edge ?B = 12"
    by (simp_all add: left_edge_def right_edge_def plain_clip_def double_eval)
  have len: "fsub 5 4 = 1" by (simp add: double_eval)
  have lay: "layer ?A = 1" "layer ?B = 1" by (simp_all add: plain_clip_def)
  have pr: "proposal ?B ?A = Some \<lparr>ts_position = 4, ts_layer = 1, ts_start = 0, ts_end = 1\<rparr>"
    by (simp add: proposal_def edges len lay)
  have "accepted ?B ?A" by (simp add: accepted_def pr lay)
  then have g: "getMissingTransitions (project ?sc') ?B
      = Some \<lparr>ts_position = 4, ts_layer = 1, ts_start = 0, ts_end = 1\<rparr>"
    unfolding getMissingTransitions_find cl ef by (simp add: pr)
  have nth: "[?A, ?B] ! 1 = ?B" "[?A, ?B] ! 0 = ?A" by simp_all
  show ?thesis unfolding Let_def cl nth g r using q by (simp add: edges lay)
qed

text \<open>
  The half-second test and the tolerance test read doubles.  A left edge at 0.2 s inside a
  clip that ends at 0.7 s gives the overlap \<open>0.7 - 0.2\<close>, the double just below one half,
  and no proposal; a transition that starts at 4.01 s lies within 0.01 s of a proposal at
  4 s, \<open>4.01 - 4\<close> being a double below \<open>0.01\<close>, and the proposal is dropped.
\<close>

lemma overlap_search_in_doubles:
  "getMissingTransitions
     (demo_project\<lparr>clips := [plain_clip ''A'' 1 0 0 (7 / 10), plain_clip ''B'' 1 (2 / 10) 0 6]\<rparr>)
     (plain_clip ''B'' 1 (2 / 10) 0 6) = None"
  "getMissingTransitions
     (demo_project\<lparr>clips := [plain_clip ''A'' 1 0 0 5, plain_clip ''B'' 1 4 0 6],
        effects := [\<lparr>id' = ''T'', layer = 1, position = 401 / 100, start = 0, end' = 2,
                     selected = False\<rparr>]\<rparr>)
     (plain_clip ''B'' 1 4 0 6) = None"
  by (simp_all add: getMissingTransitions_def plain_clip_def demo_project_def TOLERANCE_def
      double_eval)

section \<open>The snap search\<close>

lemma smallest_Cons:
  "smallest thr (e # es) (d, a, p) =
     (if \<bar>diff e\<bar> < a \<and> eligible thr e then smallest thr es (diff e, \<bar>diff e\<bar>, diff_position e)
      else smallest thr es (d, a, p))"
  by (simp add: eligible_def Let_def)

lemma smallest_take:
  "\<bar>diff e\<bar> < a \<and> eligible thr e \<Longrightarrow>
     smallest thr (e # es) (d, a, p) = smallest thr es (diff e, \<bar>diff e\<bar>, diff_position e)"
  by (subst smallest_Cons) simp

lemma smallest_skip:
  "\<not> (\<bar>diff e\<bar> < a \<and> eligible thr e) \<Longrightarrow>
     smallest thr (e # es) (d, a, p) = smallest thr es (d, a, p)"
  by (subst smallest_Cons) auto

declare smallest.simps(2) [simp del]

lemma smallest_append:
  "smallest thr (xs @ ys) st = smallest thr ys (smallest thr xs st)"
proof (induction xs arbitrary: st)
  case Nil
  show ?case by simp
next
  case (Cons e xs)
  obtain d a p where st: "st = (d, a, p)" by (cases st) auto
  show ?case unfolding st append_Cons smallest_Cons using Cons by simp
qed


lemma smallest_unchanged:
  assumes "\<forall>e \<in> set es. eligible thr e \<longrightarrow> a \<le> \<bar>diff e\<bar>"
  shows "smallest thr es (d, a, p) = (d, a, p)"
  using assms
proof (induction es)
  case Nil
  show ?case by simp
next
  case (Cons e es)
  then have "\<not> (\<bar>diff e\<bar> < a \<and> eligible thr e)" by auto
  from smallest_skip [OF this] show ?case using Cons by simp
qed

lemma smallest_bound:
  assumes "smallest thr es (d, a, p) = (d', a', p')"
  shows "a' \<le> a \<and> (\<forall>e \<in> set es. eligible thr e \<longrightarrow> a' \<le> \<bar>diff e\<bar>)"
  using assms
proof (induction es arbitrary: d a p)
  case Nil
  then show ?case by simp
next
  case (Cons e es)
  show ?case
  proof (cases "\<bar>diff e\<bar> < a \<and> eligible thr e")
    case True
    with Cons.prems have "smallest thr es (diff e, \<bar>diff e\<bar>, diff_position e) = (d', a', p')"
      by (simp add: smallest_take)
    from Cons.IH [OF this] True show ?thesis by auto
  next
    case False
    with Cons.prems have "smallest thr es (d, a, p) = (d', a', p')"
      by (simp add: smallest_skip)
    from Cons.IH [OF this] False show ?thesis by auto
  qed
qed

lemma smallest_idem:
  "smallest thr es (smallest thr es st) = smallest thr es st"
proof -
  obtain d a p where st: "st = (d, a, p)" by (cases st) auto
  obtain d' a' p' where r: "smallest thr es (d, a, p) = (d', a', p')"
    by (cases "smallest thr es (d, a, p)") auto
  from smallest_bound [OF r] have "\<forall>e \<in> set es. eligible thr e \<longrightarrow> a' \<le> \<bar>diff e\<bar>" by simp
  from smallest_unchanged [OF this] show ?thesis unfolding st r .
qed

lemma positions_loop_smallest:
  assumes "smallest thr entries best = best"
  shows "snd (positions_loop sc thr ign ik kts ps (entries, best))
           = smallest thr (concat (map (position_diffs sc thr ign ik kts) ps)) best"
  using assms
proof (induction ps arbitrary: entries best)
  case Nil
  show ?case by simp
next
  case (Cons q ps)
  let ?new = "position_diffs sc thr ign ik kts q"
  let ?best' = "smallest thr (entries @ ?new) best"
  have b: "?best' = smallest thr ?new best"
    unfolding smallest_append Cons.prems ..
  have stable: "smallest thr (entries @ ?new) ?best' = ?best'" by (rule smallest_idem)
  have "snd (positions_loop sc thr ign ik kts (q # ps) (entries, best))
      = snd (positions_loop sc thr ign ik kts ps (entries @ ?new, ?best'))"
    by (simp add: Let_def)
  also have "\<dots> = smallest thr (concat (map (position_diffs sc thr ign ik kts) ps)) ?best'"
    by (rule Cons.IH [OF stable])
  also have "\<dots> = smallest thr (concat (map (position_diffs sc thr ign ik kts) (q # ps))) best"
    unfolding b by (simp add: smallest_append)
  finally show ?case .
qed

lemma getNearbyPosition_nearest:
  "getNearbyPosition sc ps thr ign ik kts = nearest thr (all_diffs sc ps thr ign ik kts)"
proof -
  have "smallest thr [] (900, 900, 0) = (900, 900, 0)" by simp
  from positions_loop_smallest [OF this, of sc ign ik kts ps]
  show ?thesis
    unfolding getNearbyPosition_def nearest_def all_diffs_def
    by (cases "positions_loop sc thr ign ik kts ps ([], 900, 900, 0)") auto
qed





text \<open>The same clip one second later is found: its left edge is at pixel 10.\<close>

lemma getNearbyPosition_finds_other_pixels:
  "getNearbyPosition (snap_scenario 1) [13] 5 [] False [] = (3, 10)"
proof -
  have "all_diffs (snap_scenario 1) [13] 5 [] False []
     = [\<lparr>diff = 3, diff_position = 10\<rparr>, \<lparr>diff = - 2987, diff_position = 3000\<rparr>]"
    by (simp add: all_diffs_def position_diffs_def snap_scenario_def demo_scope_def
        demo_project_def plain_clip_def push_if_near_def Let_def)
  then show ?thesis
    by (simp add: getNearbyPosition_nearest nearest_def smallest_take smallest_skip eligible_def)
qed

section \<open>The retime mapping\<close>

text \<open>
  In the keyframe enumerator a retime preview maps the seconds of a keyframe by
  \<open>displayStart + ((seconds - projectedStart) / projectedDuration) * displayDuration\<close>,
  and to \<open>displayStart\<close> when either duration is zero.
\<close>

lemma window_ordered:
  "previewDisplayStart (window object) \<le> previewDisplayEnd (window object)"
  "previewProjectedStart (window object) \<le> previewProjectedEnd (window object)"
  by (simp_all add: window_def Let_def)

lemma mapSecondsToDisplay_retime:
  assumes "active_preview object = Some pv" and "mode pv = ''retime''"
  defines "w \<equiv> window object"
  shows "mapSecondsToDisplay object seconds =
           (if previewProjectedEnd w - previewProjectedStart w = 0
               \<or> previewDisplayEnd w - previewDisplayStart w = 0
            then previewDisplayStart w
            else previewDisplayStart w
                   + ((seconds - previewProjectedStart w)
                        / (previewProjectedEnd w - previewProjectedStart w))
                     * (previewDisplayEnd w - previewDisplayStart w))"
proof -
  have d: "max (previewDisplayEnd w - previewDisplayStart w) 0
             = previewDisplayEnd w - previewDisplayStart w"
    and p: "max (previewProjectedEnd w - previewProjectedStart w) 0
             = previewProjectedEnd w - previewProjectedStart w"
    using window_ordered [of object] by (simp_all add: w_def)
  have d0: "0 \<le> previewDisplayEnd w - previewDisplayStart w"
    and p0: "0 \<le> previewProjectedEnd w - previewProjectedStart w"
    using window_ordered [of object] by (simp_all add: w_def)
  show ?thesis
    unfolding mapSecondsToDisplay_def Let_def w_def [symmetric] d p
    using assms(1,2) d0 p0 by auto
qed

lemma render_agrees_when_stretched:
  assumes a: "active_preview c = Some pv" and m: "mode pv = ''retime''"
    and o: "originalStart pv = projectedStart pv" "originalEnd pv = projectedEnd pv"
    and v: "displayStart pv = Some ds" "displayEnd pv = Some de" "projectedStart pv = Some ps"
      "projectedEnd pv = Some pe"
    and pos: "ds < de" "ps < pe"
    and f: "0 < fps_num (fps (project sc))" "0 < fps_den (fps (project sc))"
  shows "render_mappedSeconds sc c pv frameValue
           = mapSecondsToDisplay c ((frameValue - 1) / (fps_num (fps (project sc)) / fps_den (fps (project sc))))"
proof -
  have w: "window c = \<lparr>previewDisplayStart = ds, previewDisplayEnd = de,
                         previewProjectedStart = ps, previewProjectedEnd = pe\<rparr>"
    using a v pos by (simp add: window_def Let_def toNumber_def)
  have r: "render_fps sc = fps_num (fps (project sc)) / fps_den (fps (project sc))"
    using f by (auto simp add: render_fps_def Let_def divide_le_0_iff)
  show ?thesis
    unfolding mapSecondsToDisplay_retime [OF a m] w
    using m o v pos by (simp add: render_mappedSeconds_def Let_def toNumber_def r)
qed

text \<open>
  Claim C5 at the input where the two code places part.  Timing mode, 24 fps, 100 pixels
  per second: the clip that showed 0 s to 4 s is squeezed to a hundredth of a second, so the
  snapped display window is empty while the projected one is still 0 s to 4 s.  For the
  keyframe at frame 49 (2 s) the enumerator yields \<open>displayStart = 0\<close>;
  \<open>renderKeyframePreview\<close> has no retime mapping in that case and keeps 2 s, which puts the
  icon 200 pixels to the right of the start.
\<close>

theorem renderKeyframePreview_does_not_collapse:
  "(let sc = squeezed (1 / 100);
        c = the_clip sc retime_directive;
        pv = the (keyframe_preview c)
    in active pv \<and> mode pv = ''retime'' \<and> displayStart pv = Some 0 \<and> displayEnd pv = Some 0
       \<and> projectedStart pv = Some 0 \<and> projectedEnd pv = Some 4
       \<and> mapSecondsToDisplay c 2 = 0
       \<and> render_mappedSeconds sc c pv 49 = 2
       \<and> render_left sc c pv 49 = 200)"
  by (simp add: squeezed_def retime_scenario_def retime_directive_def demo_scope_def
      demo_project_def plain_clip_def updateKeyframePreview_def startKeyframePreview_def
      ensureKeyframePreviewContainer_def empty_container_def set_clip_def the_clip_def
      snapToFPSGridTime_def Math_round_def toNumber_def mapSecondsToDisplay_def window_def
      active_preview_def clip_end_sec_def render_mappedSeconds_def render_left_def
      render_fps_def Let_def)

theorem renderKeyframePreview_does_not_collapse_witness:
  "mapSecondsToDisplay (the_clip (squeezed (1 / 100)) retime_directive) 2
     \<noteq> render_mappedSeconds (squeezed (1 / 100)) (the_clip (squeezed (1 / 100)) retime_directive)
         (the (keyframe_preview (the_clip (squeezed (1 / 100)) retime_directive))) 49"
  using renderKeyframePreview_does_not_collapse by (simp add: Let_def)

section \<open>Ripple selection\<close>

lemma project_calls [simp]: "project (calls cs sc) = project sc"
  and lastSelectedItem_calls [simp]: "lastSelectedItem (calls cs sc) = lastSelectedItem sc"
  by (simp_all add: calls_def)

lemma set_clips_simps [simp]:
  "clips (project (set_clips cs sc)) = cs"
  "effects (project (set_clips cs sc)) = effects (project sc)"
  "lastSelectedItem (set_clips cs sc) = lastSelectedItem sc"
  by (simp_all add: set_clips_def)

lemma set_effects_simps [simp]:
  "effects (project (set_effects ts sc)) = ts"
  "clips (project (set_effects ts sc)) = clips (project sc)"
  "lastSelectedItem (set_effects ts sc) = lastSelectedItem sc"
  by (simp_all add: set_effects_def)

text \<open>
  What the ripple branch does to the replica when the anchor is a clip: the items at or to
  the right of it on its layer are selected, every other item keeps its flag, and the last
  selected item is not touched.
\<close>

lemma selectItem_ripple_clip:
  fixes sc :: scope and clear_selections force_ripple :: bool and ev :: "event option"
  assumes "\<not> dragging sc"
    and "replace_first ''clip_'' [] item_id = i" and "i \<noteq> []"
    and "\<not> (enable_razor sc \<and> Qt sc \<and> ev \<noteq> None)"
    and "(case ev of None \<Rightarrow> False | Some e \<Rightarrow> altKey e) \<or> force_ripple"
    and "first_index (\<lambda>item. id' item = i) (clips (project sc)) = Some n"
  defines "anchor \<equiv> clips (project sc) ! n"
  defines "sc' \<equiv> selectItem sc item_id ''clip'' clear_selections ev force_ripple"
  shows "clips (project sc') =
           map (\<lambda>c. if layer c = layer anchor \<and> position anchor \<le> position c
                     then c\<lparr>selected := True\<rparr> else c) (clips (project sc))"
    and "effects (project sc') =
           map (\<lambda>t. if layer t = layer anchor \<and> position anchor \<le> position t
                     then t\<lparr>selected := True\<rparr> else t) (effects (project sc))"
    and "lastSelectedItem sc' = lastSelectedItem sc"
proof -
  have f: "find_item (project sc) ''clip'' i = Some (Clip_ref n)"
    using assms(6) by (simp add: find_item_def)
  have s: "sc' = ripple ''clip'' i clear_selections
                  (case ev of None \<Rightarrow> False | Some e \<Rightarrow> ctrlKey e) sc"
    unfolding sc'_def selectItem_def using assms(1-5) by (auto simp add: Let_def)
  show "clips (project sc') =
           map (\<lambda>c. if layer c = layer anchor \<and> position anchor \<le> position c
                     then c\<lparr>selected := True\<rparr> else c) (clips (project sc))"
    unfolding s ripple_def f anchor_def by (simp add: Let_def)
  show "effects (project sc') =
           map (\<lambda>t. if layer t = layer anchor \<and> position anchor \<le> position t
                     then t\<lparr>selected := True\<rparr> else t) (effects (project sc))"
    unfolding s ripple_def f anchor_def by (simp add: Let_def)
  show "lastSelectedItem sc' = lastSelectedItem sc"
    unfolding s ripple_def f anchor_def by (simp add: Let_def)
qed

text \<open>
  Claim C7 at the input where the code and the claim part.  Clip b on layer 2 is selected;
  the user alt-clicks clip a on layer 1, without ctrl and with \<open>clear_selections\<close> set.
  Clip a becomes selected and the last selected item stays as it was, but clip b stays
  selected too, and the host is not asked to remove it.
\<close>

theorem ripple_keeps_other_selections:
  "(let sc = selectItem ripple_scenario ''a'' ''clip'' True (Some alt_click) False
    in map selected (clips (project sc)) = [True, True]
       \<and> host sc = [AddSelection ''a'' ''clip'' False]
       \<and> lastSelectedItem sc = lastSelectedItem ripple_scenario)"
  by (simp add: selectItem_def ripple_def find_item_def ripple_scenario_def alt_click_def
      demo_scope_def demo_project_def plain_clip_def calls_def when_Qt_def set_clips_def
      set_effects_def Let_def)

section \<open>Actions whose key matches nothing\<close>

text \<open>
  Claim C6 at two inputs where the code and the claim part.  The \<open>continue\<close> under ``No
  match, skip this action'' leaves only the current level of the key, so the action is then
  applied to whatever was reached before.  An update under the unknown property
  \<open>nonexistent\<close> is merged into the project itself and overwrites its duration; deleting the
  clip with the unknown id \<open>zzz\<close> removes the whole property \<open>clips\<close>.
\<close>

theorem applyJsonDiff_unmatched_key_is_applied:
  "at_path demo_tree [Field ''nonexistent''] = None
   \<and> at_path demo_tree [Field ''duration''] = Some (JNum 300)
   \<and> snd (applyJsonDiff [unknown_property_update] demo_tree)
   \<and> at_path (fst (applyJsonDiff [unknown_property_update] demo_tree)) [Field ''duration'']
        = Some (JNum 10)
   \<and> at_path demo_tree [Field ''clips'', Index 0, Field ''id''] = Some (JStr ''C1'')
   \<and> snd (applyJsonDiff [unknown_id_delete] demo_tree)
   \<and> at_path (fst (applyJsonDiff [unknown_id_delete] demo_tree)) [Field ''clips''] = None"
  by (simp add: unknown_property_update_def unknown_id_delete_def demo_tree_def
      apply_action_def key_step_def own_property_def truthy_def strict_eq_def
      replace_in_previous_def delete_field_def)

section \<open>The window of a dragged keyframe\<close>

lemma getBounds_dragging [simp]: "getBounds (sc\<lparr>dragging := v\<rparr>) object = getBounds sc object"
  by (simp add: getBounds_def)

lemma snapClampExclusive_dragging [simp]:
  "snapClampExclusive (sc\<lparr>dragging := v\<rparr>) k t b = snapClampExclusive sc k t b"
  by (simp add: snapClampExclusive_def)

lemma proposed_seconds_dragging [simp]:
  "proposed_seconds (sc\<lparr>dragging := v\<rparr>) k object left = proposed_seconds sc k object left"
  by (simp add: proposed_seconds_def)

lemma secondsToPixels_dragging [simp]:
  "secondsToPixels (sc\<lparr>dragging := v\<rparr>) object secs = secondsToPixels sc object secs"
  by (simp add: secondsToPixels_def)

















text \<open>
  At 25 fps the grid point 1.16 s is the double just below \<open>29 / 25\<close> and its product
  with 25 is just below 29: an icon released at the pixel of 1.16 s lands on frame 29.
\<close>

lemma frame_at_25_fps:
  "snapToFPSGridTime_double \<lparr>fps_num = 25, fps_den = 1\<rparr> (fl (29 / 25))
     = 5224175567749775 / 4503599627370496"
  "secondsToFrame (dragged_icon\<lparr>directive_fps := 25\<rparr>) (5224175567749775 / 4503599627370496)
     \<lparr>bounds_start = 0, bounds_end = 4\<rparr> = 29"
  by (simp_all add: snapToFPSGridTime_double_def Math_round_def secondsToFrame_def
      dragged_icon_def double_eval)

section \<open>Releasing a dragged keyframe\<close>




end
